theory Spec2Isabelle
  imports Complex_Main "HOL-Library.Sublist"
begin

section \<open>Data model (parser/types.ts, search/types.ts)\<close>

text \<open>
  JavaScript strings are modelled as \<^typ>\<open>string\<close>, one \<^typ>\<open>char\<close> per code unit;
  JavaScript numbers that hold scores are modelled as exact \<^typ>\<open>real\<close>s (no rounding),
  and numbers that hold positions, lengths and limits as \<^typ>\<open>int\<close> or \<^typ>\<open>nat\<close>.
  An optional property (\<open>x?: T\<close>) is a \<^typ>\<open>'a option\<close>, \<open>None\<close> for \<open>undefined\<close>.
  The \<open>line\<close> of an entity is \<open>None\<close> when \<open>parseInt\<close> gives \<open>NaN\<close>.
\<close>

datatype EntityKind =
  KClass | KStruct | KFunction | KMethod | KNamespace | KEnum | KTypedef | KVariable | KDefine

datatype Visibility = Public | Protected | Private

text \<open>
  A member reference and a base-class reference keep the strings the document holds: the
  source casts the \<open>kind\<close> and \<open>prot\<close> attributes to the declared types without a check.
\<close>

record MemberReference =
  m_id :: string
  m_name :: string
  m_kind :: "string option"
  m_visibility :: string

record BaseClass =
  bc_name :: string
  bc_qualifiedName :: string
  bc_visibility :: string
  bc_isVirtual :: bool

record EnumValue =
  ev_name :: string
  ev_value :: "string option"
  ev_description :: "string option"

text \<open>
  The entity variants, as the part of an entity beyond the base fields. The template
  parameters of a class and the parameters of a function are left out of the model.
\<close>

datatype EntityDetails =
  ClassDetails (baseClasses: "BaseClass list") (members: "MemberReference list")
    (isAbstract: bool) (namespace: "string option")
| FunctionDetails (returnType: string) (isConst: bool) (isStatic: bool) (isVirtual: bool)
    (isInline: bool) (isPureVirtual: bool) (parentClass: "string option")
    (namespace: "string option") (exceptions: "string list option")
| NamespaceDetails (members: "MemberReference list") (parentNamespace: "string option")
| EnumDetails (enumValues: "EnumValue list") (isStrong: bool) (underlyingType: "string option")
| NoDetails

record DoxygenEntity =
  id_e :: string
  name :: string
  qualifiedName :: string
  kind :: EntityKind
  file_e :: string
  line :: "int option"
  briefDescription :: "string option"
  detailedDescription :: "string option"
  visibility :: "Visibility option"
  details :: EntityDetails

datatype MatchType = Exact | Prefix | Substring | Fuzzy | Semantic

record MatchedField =
  fieldName :: string
  matchType :: MatchType
  score :: real

record Highlight =
  field_h :: string
  start :: int
  length_h :: int
  context_h :: "string option"

record SearchResult =
  entity :: DoxygenEntity
  relevance :: real
  matchedFields :: "MatchedField list"
  highlights :: "Highlight list option"

record SearchQuery =
  term_q :: string
  entityTypes :: "EntityKind list option"
  exactMatch_q :: "bool option"
  maxResults_q :: "int option"

record SearchOptions =
  caseSensitive :: bool
  exactMatch :: bool
  fuzzyThreshold :: "real option"
  maxResults :: int
  enableHighlights :: bool
  includeDescriptions :: bool
  cacheResults :: bool

record SearchStats =
  totalEntities :: nat
  matchedEntities :: nat
  returnedResults :: nat
  cacheHit :: bool


section \<open>String and array primitives of the runtime\<close>

text \<open>
  \<open>String.prototype.toLowerCase\<close>, on the ASCII letters. The statements below use of it
  only that it keeps the length of a string, which holds of the 8-bit code units.
\<close>

definition lowerChar :: "char \<Rightarrow> char" where
  "lowerChar c =
     (let n = (of_char c :: nat) in if 65 \<le> n \<and> n \<le> 90 then char_of (n + 32) else c)"

definition toLowerCase :: "string \<Rightarrow> string" where
  "toLowerCase s = map lowerChar s"

text \<open>\<open>s.startsWith(t)\<close>.\<close>

definition startsWith :: "string \<Rightarrow> string \<Rightarrow> bool" where
  "startsWith s t = prefix t s"

text \<open>\<open>s.indexOf(t)\<close>: the least position at which \<open>t\<close> occurs in \<open>s\<close>, or \<open>-1\<close>.\<close>

fun indexOfFrom :: "int \<Rightarrow> string \<Rightarrow> string \<Rightarrow> int" where
  "indexOfFrom i [] t = (if t = [] then i else -1)"
| "indexOfFrom i (c # cs) t = (if prefix t (c # cs) then i else indexOfFrom (i + 1) cs t)"

definition indexOf :: "string \<Rightarrow> string \<Rightarrow> int" where
  "indexOf s t = indexOfFrom 0 s t"

text \<open>\<open>s.includes(t)\<close>.\<close>

fun includes_s :: "string \<Rightarrow> string \<Rightarrow> bool" where
  "includes_s [] t = (t = [])"
| "includes_s (c # cs) t = (prefix t (c # cs) \<or> includes_s cs t)"

text \<open>\<open>s.substring(a, b)\<close>: both ends clamped to the string, swapped when out of order.\<close>

definition substring :: "string \<Rightarrow> int \<Rightarrow> int \<Rightarrow> string" where
  "substring s a b =
     (let n = int (length s);
          a' = max 0 (min a n);
          b' = max 0 (min b n);
          lo = min a' b';
          hi = max a' b'
      in take (nat (hi - lo)) (drop (nat lo) s))"

text \<open>\<open>xs.slice(0, end)\<close>: a negative \<open>end\<close> counts from the end of the array.\<close>

definition slice0 :: "'a list \<Rightarrow> int \<Rightarrow> 'a list" where
  "slice0 xs end_i =
     (let n = int (length xs);
          k = (if end_i < 0 then max (n + end_i) 0 else min end_i n)
      in take (nat k) xs)"

text \<open>
  \<open>xs.sort(cmp)\<close>: the language standard requires the sort to be stable (ECMAScript 2019,
  Array.prototype.sort), and it puts \<open>a\<close> before \<open>b\<close> when \<open>cmp(a, b) < 0\<close>. The model is
  the insertion sort that moves an element past the elements the comparator puts strictly
  before it.
\<close>

fun insertBy :: "('a \<Rightarrow> 'a \<Rightarrow> real) \<Rightarrow> 'a \<Rightarrow> 'a list \<Rightarrow> 'a list" where
  "insertBy cmp x [] = [x]"
| "insertBy cmp x (y # ys) = (if cmp x y \<le> 0 then x # y # ys else y # insertBy cmp x ys)"

definition sortBy :: "('a \<Rightarrow> 'a \<Rightarrow> real) \<Rightarrow> 'a list \<Rightarrow> 'a list" where
  "sortBy cmp xs = foldr (insertBy cmp) xs []"


section \<open>Engine base class (search/engines/base.ts)\<close>

text \<open>
  \<open>Partial<SearchOptions>\<close>: every option may be left out. An engine is a record that the
  concrete engines extend; \<open>configure\<close> and the constructor's \<open>getDefaultOptions\<close> spread
  the given options over the current ones and over the defaults.
\<close>

record PartialSearchOptions =
  p_caseSensitive :: "bool option"
  p_exactMatch :: "bool option"
  p_fuzzyThreshold :: "real option"
  p_maxResults :: "int option"
  p_enableHighlights :: "bool option"
  p_includeDescriptions :: "bool option"
  p_cacheResults :: "bool option"

definition orElse :: "'a option \<Rightarrow> 'a \<Rightarrow> 'a" where
  "orElse x d = (case x of Some v \<Rightarrow> v | None \<Rightarrow> d)"

definition mergeOptions :: "SearchOptions \<Rightarrow> PartialSearchOptions \<Rightarrow> SearchOptions" where
  "mergeOptions cur given =
     \<lparr>caseSensitive = orElse (p_caseSensitive given) (caseSensitive cur),
      exactMatch = orElse (p_exactMatch given) (exactMatch cur),
      fuzzyThreshold = (case p_fuzzyThreshold given of Some v \<Rightarrow> Some v
                        | None \<Rightarrow> fuzzyThreshold cur),
      maxResults = orElse (p_maxResults given) (maxResults cur),
      enableHighlights = orElse (p_enableHighlights given) (enableHighlights cur),
      includeDescriptions = orElse (p_includeDescriptions given) (includeDescriptions cur),
      cacheResults = orElse (p_cacheResults given) (cacheResults cur)\<rparr>"

definition getDefaultOptions :: "PartialSearchOptions \<Rightarrow> SearchOptions" where
  "getDefaultOptions userOptions =
     mergeOptions
       \<lparr>caseSensitive = False, exactMatch = False, fuzzyThreshold = None, maxResults = 50,
        enableHighlights = True, includeDescriptions = True, cacheResults = True\<rparr>
       userOptions"

record SearchEngine =
  options :: SearchOptions
  entities :: "DoxygenEntity list"

definition configure :: "'a SearchEngine_scheme \<Rightarrow> PartialSearchOptions \<Rightarrow> 'a SearchEngine_scheme" where
  "configure eng given = eng\<lparr>options := mergeOptions (options eng) given\<rparr>"

text \<open>
  \<open>loadEntities\<close> stores the snapshot and then runs the engine's \<open>onEntitiesLoaded\<close> hook,
  here a parameter: the base class's hook does nothing, the Fuzzy engine's builds its index.
\<close>

definition loadEntities ::
  "('a SearchEngine_scheme \<Rightarrow> 'a SearchEngine_scheme) \<Rightarrow> 'a SearchEngine_scheme \<Rightarrow>
   DoxygenEntity list \<Rightarrow> 'a SearchEngine_scheme" where
  "loadEntities onEntitiesLoaded eng es = onEntitiesLoaded (eng\<lparr>entities := es\<rparr>)"

text \<open>
  The result limit both engines compute, \<open>query.maxResults || this.options.maxResults\<close>:
  the configured maximum stands in when the query gives no limit or gives 0.
\<close>

definition resultLimit :: "SearchOptions \<Rightarrow> SearchQuery \<Rightarrow> int" where
  "resultLimit opts q =
     (case maxResults_q q of
        Some n \<Rightarrow> if n \<noteq> 0 then n else maxResults opts
      | None \<Rightarrow> maxResults opts)"

datatype error = Error string


section \<open>Simple engine (search/engines/simple.ts)\<close>

record SimpleSearchEngine = SearchEngine +
  stats :: "SearchStats option"

definition new_SimpleSearchEngine :: "PartialSearchOptions \<Rightarrow> SimpleSearchEngine" where
  "new_SimpleSearchEngine userOptions =
     \<lparr>options = getDefaultOptions userOptions, entities = [], stats = None\<rparr>"

text \<open>\<open>scoreField\<close>: the tiers, in the order the source tries them.\<close>

definition scoreField :: "string \<Rightarrow> string \<Rightarrow> string \<Rightarrow> bool \<Rightarrow> MatchedField option" where
  "scoreField fieldValue searchTerm fName exactM =
     (if fieldValue = searchTerm then
        Some \<lparr>fieldName = fName, matchType = Exact, score = 1\<rparr>
      else if exactM then None
      else if startsWith fieldValue searchTerm then
        Some \<lparr>fieldName = fName, matchType = Prefix, score = 9 / 10\<rparr>
      else if includes_s fieldValue searchTerm then
        (let position = indexOf fieldValue searchTerm;
             positionRatio = 1 - real_of_int position / real (length fieldValue);
             sc = 5 / 10 + positionRatio * (3 / 10)
         in Some \<lparr>fieldName = fName, matchType = Substring, score = sc\<rparr>)
      else None)"

text \<open>\<open>getContext\<close> and \<open>generateHighlights\<close>.\<close>

definition getContext :: "string \<Rightarrow> int \<Rightarrow> int \<Rightarrow> string" where
  "getContext text start_i len =
     (let contextLength = 40;
          beforeStart = max 0 (start_i - contextLength);
          afterEnd = min (int (length text)) (start_i + len + contextLength);
          c0 = substring text beforeStart afterEnd;
          c1 = (if beforeStart > 0 then ''...'' @ c0 else c0);
          c2 = (if afterEnd < int (length text) then c1 @ ''...'' else c1)
      in c2)"

definition normalize_s :: "SearchOptions \<Rightarrow> string \<Rightarrow> string" where
  "normalize_s opts s = (if caseSensitive opts then s else toLowerCase s)"

definition highlightField :: "DoxygenEntity \<Rightarrow> string \<Rightarrow> string option" where
  "highlightField e fName =
     (if fName = ''name'' then Some (name e)
      else if fName = ''qualifiedName'' then Some (qualifiedName e)
      else if fName = ''briefDescription'' then
        Some (case briefDescription e of Some d \<Rightarrow> d | None \<Rightarrow> [])
      else None)"

fun generateHighlights ::
  "SearchOptions \<Rightarrow> DoxygenEntity \<Rightarrow> string \<Rightarrow> MatchedField list \<Rightarrow> Highlight list" where
  "generateHighlights opts e searchTerm [] = []"
| "generateHighlights opts e searchTerm (m # ms) =
     (case highlightField e (fieldName m) of
        None \<Rightarrow> generateHighlights opts e searchTerm ms
      | Some fieldValue \<Rightarrow>
          (let normalizedValue = normalize_s opts fieldValue;
               idx = indexOf normalizedValue searchTerm
           in if idx \<noteq> -1 then
                \<lparr>field_h = fieldName m, start = idx, length_h = int (length searchTerm),
                 context_h = Some (getContext fieldValue idx (int (length searchTerm)))\<rparr>
                # generateHighlights opts e searchTerm ms
              else generateHighlights opts e searchTerm ms))"

text \<open>
  \<open>scoreEntity\<close>. \<open>scoreFields\<close> is the first part of its body: the three field checks,
  giving the matched fields in the order they are pushed and the running \<open>totalScore\<close>;
  \<open>descScore\<close> is the guarded third check (descriptions enabled, description present
  and not the empty string), which always passes \<open>false\<close> for the exact-match flag.
\<close>

definition queryExact :: "SearchQuery \<Rightarrow> bool" where
  "queryExact q = (case exactMatch_q q of Some b \<Rightarrow> b | None \<Rightarrow> False)"

definition descScore :: "SearchOptions \<Rightarrow> DoxygenEntity \<Rightarrow> string \<Rightarrow> MatchedField option" where
  "descScore opts e searchTerm =
     (case briefDescription e of
        Some d \<Rightarrow>
          if includeDescriptions opts \<and> d \<noteq> [] then
            scoreField (normalize_s opts d) searchTerm ''briefDescription'' False
          else None
      | None \<Rightarrow> None)"

definition scoreFields ::
  "SearchOptions \<Rightarrow> DoxygenEntity \<Rightarrow> string \<Rightarrow> SearchQuery \<Rightarrow> MatchedField list \<times> real" where
  "scoreFields opts e searchTerm q =
     (let nameScore = scoreField (normalize_s opts (name e)) searchTerm ''name'' (queryExact q);
          (mf1, t1) = (case nameScore of
                         Some m \<Rightarrow> ([m], score m)
                       | None \<Rightarrow> ([], 0));
          qualifiedScore =
            scoreField (normalize_s opts (qualifiedName e)) searchTerm ''qualifiedName''
              (queryExact q);
          (mf2, t2) = (case qualifiedScore of
                         Some m \<Rightarrow> (mf1 @ [m], t1 + score m * (8 / 10))
                       | None \<Rightarrow> (mf1, t1));
          (mf3, t3) = (case descScore opts e searchTerm of
                         Some m \<Rightarrow> (mf2 @ [m], t2 + score m * (3 / 10))
                       | None \<Rightarrow> (mf2, t2))
      in (mf3, t3))"

definition scoreEntity ::
  "SearchOptions \<Rightarrow> DoxygenEntity \<Rightarrow> string \<Rightarrow> SearchQuery \<Rightarrow> SearchResult option" where
  "scoreEntity opts e searchTerm q =
     (let (mfs, totalScore) = scoreFields opts e searchTerm q
      in if length mfs = 0 then None
         else Some \<lparr>entity = e, relevance = min totalScore 1, matchedFields = mfs,
                    highlights = (if enableHighlights opts
                                  then Some (generateHighlights opts e searchTerm mfs)
                                  else None)\<rparr>)"

text \<open>\<open>search\<close>, step by step as in the source.\<close>

definition candidateEntities :: "SimpleSearchEngine \<Rightarrow> SearchQuery \<Rightarrow> DoxygenEntity list" where
  "candidateEntities eng q =
     (case entityTypes q of
        Some ts \<Rightarrow> if length ts > 0 then filter (\<lambda>e. kind e \<in> set ts) (entities eng)
                   else entities eng
      | None \<Rightarrow> entities eng)"

fun scoreAll ::
  "SearchOptions \<Rightarrow> string \<Rightarrow> SearchQuery \<Rightarrow> DoxygenEntity list \<Rightarrow> SearchResult list" where
  "scoreAll opts searchTerm q [] = []"
| "scoreAll opts searchTerm q (e # es) =
     (case scoreEntity opts e searchTerm q of
        Some r \<Rightarrow> if relevance r > 0 then r # scoreAll opts searchTerm q es
                  else scoreAll opts searchTerm q es
      | None \<Rightarrow> scoreAll opts searchTerm q es)"

definition scoredResults :: "SimpleSearchEngine \<Rightarrow> SearchQuery \<Rightarrow> SearchResult list" where
  "scoredResults eng q =
     (let searchTerm = (if caseSensitive (options eng) then term_q q
                        else toLowerCase (term_q q))
      in scoreAll (options eng) searchTerm q (candidateEntities eng q))"

definition search :: "SimpleSearchEngine \<Rightarrow> SearchQuery \<Rightarrow> SearchResult list \<times> SimpleSearchEngine" where
  "search eng q =
     (let scored = scoredResults eng q;
          sorted = sortBy (\<lambda>a b. relevance b - relevance a) scored;
          results = slice0 sorted (resultLimit (options eng) q)
      in (results,
          eng\<lparr>stats := Some \<lparr>totalEntities = length (entities eng),
                              matchedEntities = length scored,
                              returnedResults = length results,
                              cacheHit = False\<rparr>\<rparr>))"


section \<open>Fuzzy engine (search/engines/fuzzy.ts)\<close>

text \<open>
  The index is the Fuse.js library's. \<open>Fuse\<close> holds what the constructor is given (the
  collection and the threshold; the keys, weights and the other settings are constants of the
  source), and the library's \<open>search\<close> is a parameter \<open>fuseSearch\<close> of the model.
\<close>

record FuseResultMatch =
  fm_key :: "string option"
  fm_score :: "real option"
  fm_indices :: "(int \<times> int) list option"

record FuseResult =
  item :: DoxygenEntity
  fr_score :: "real option"
  fr_matches :: "FuseResultMatch list option"

record Fuse =
  fuse_list :: "DoxygenEntity list"
  fuse_threshold :: real

type_synonym FuseSearch = "Fuse \<Rightarrow> string \<Rightarrow> FuseResult list"

record FuzzySearchEngine = SearchEngine +
  fuse :: "Fuse option"
  fuzzyStats :: "SearchStats option"

definition new_FuzzySearchEngine :: "PartialSearchOptions \<Rightarrow> FuzzySearchEngine" where
  "new_FuzzySearchEngine userOptions =
     \<lparr>options = getDefaultOptions userOptions, entities = [], fuse = None, fuzzyStats = None\<rparr>"

definition onEntitiesLoaded :: "FuzzySearchEngine \<Rightarrow> FuzzySearchEngine" where
  "onEntitiesLoaded eng =
     eng\<lparr>fuse := Some \<lparr>fuse_list = entities eng,
                          fuse_threshold = (case fuzzyThreshold (options eng) of
                                              Some x \<Rightarrow> if x \<noteq> 0 then x else 4 / 10
                                            | None \<Rightarrow> 4 / 10)\<rparr>\<rparr>"

definition numOrZero :: "real option \<Rightarrow> real" where
  "numOrZero x = (case x of Some v \<Rightarrow> v | None \<Rightarrow> 0)"

definition keyOrUnknown :: "string option \<Rightarrow> string" where
  "keyOrUnknown k = (case k of Some s \<Rightarrow> if s \<noteq> [] then s else ''unknown'' | None \<Rightarrow> ''unknown'')"

definition convertMatches :: "FuseResultMatch list \<Rightarrow> Highlight list" where
  "convertMatches ms =
     concat (map (\<lambda>m. map (\<lambda>(s, e). \<lparr>field_h = keyOrUnknown (fm_key m), start = s,
                                         length_h = e - s + 1, context_h = None\<rparr>)
                         (case fm_indices m of Some ix \<Rightarrow> ix | None \<Rightarrow> [])) ms)"

definition convertResult :: "SearchOptions \<Rightarrow> FuseResult \<Rightarrow> SearchResult" where
  "convertResult opts res =
     (let ms = (case fr_matches res of Some l \<Rightarrow> l | None \<Rightarrow> [])
      in \<lparr>entity = item res,
          relevance = 1 - numOrZero (fr_score res),
          matchedFields = map (\<lambda>m. \<lparr>fieldName = keyOrUnknown (fm_key m), matchType = Fuzzy,
                                        score = 1 - numOrZero (fm_score m)\<rparr>) ms,
          highlights = (if enableHighlights opts then Some (convertMatches ms) else None)\<rparr>)"

definition search_fuzzy ::
  "FuseSearch \<Rightarrow> FuzzySearchEngine \<Rightarrow> SearchQuery \<Rightarrow>
   error + SearchResult list \<times> FuzzySearchEngine" where
  "search_fuzzy fuseSearch eng q =
     (case fuse eng of
        None \<Rightarrow> Inl (Error ''Entities not loaded. Call loadEntities() first.'')
      | Some fz \<Rightarrow>
          (let fuseResults = fuseSearch fz (term_q q);
               results0 = map (convertResult (options eng)) fuseResults;
               results1 = (case entityTypes q of
                             Some ts \<Rightarrow> if length ts > 0
                                        then filter (\<lambda>r. kind (entity r) \<in> set ts) results0
                                        else results0
                           | None \<Rightarrow> results0);
               results2 = slice0 results1 (resultLimit (options eng) q)
           in Inr (results2,
                   eng\<lparr>fuzzyStats := Some \<lparr>totalEntities = length (entities eng),
                                            matchedEntities = length fuseResults,
                                            returnedResults = length results2,
                                            cacheHit = False\<rparr>\<rparr>)))"

text \<open>
  A history of calls on one Fuzzy engine instance. A \<open>search\<close> that throws leaves the
  instance as it was.
\<close>

datatype EngineCall =
  Configure PartialSearchOptions | LoadEntities "DoxygenEntity list" | Search SearchQuery

fun callFuzzy :: "FuseSearch \<Rightarrow> FuzzySearchEngine \<Rightarrow> EngineCall \<Rightarrow> FuzzySearchEngine" where
  "callFuzzy fuseSearch eng (Configure given) = configure eng given"
| "callFuzzy fuseSearch eng (LoadEntities es) = loadEntities onEntitiesLoaded eng es"
| "callFuzzy fuseSearch eng (Search q) =
     (case search_fuzzy fuseSearch eng q of Inl err \<Rightarrow> eng | Inr (res, eng') \<Rightarrow> eng')"

fun isLoad :: "EngineCall \<Rightarrow> bool" where
  "isLoad (LoadEntities es) = True"
| "isLoad c = False"


section \<open>Parsed documents (the output of fast-xml-parser)\<close>

text \<open>
  The parser is configured with \<open>parseTagValue: false\<close> and \<open>parseAttributeValue: false\<close>, so
  a parsed document is built from strings, arrays and objects only. An object is the list
  of its properties in insertion order (what \<open>Object.values\<close> walks); an attribute \<open>a\<close> is the
  property \<open>@_a\<close>, the text of an element with attributes or children the property \<open>#text\<close>.

  The source reads nodes as \<open>any\<close>. The model reads a property that the source uses as a
  string (an attribute, \<open>#text\<close>, \<open>name\<close>, \<open>compoundname\<close>, \<open>qualifiedname\<close>) as that string
  when it holds one, and as missing when it holds an object or an array: Doxygen writes
  these as attributes and text-only elements, for which the parser gives strings.
\<close>

datatype xml = Str string | Arr "xml list" | Obj "(string \<times> xml) list"

text \<open>\<open>node[k]\<close>: a string or an array has none of the properties the source asks for.\<close>

fun getProp :: "xml \<Rightarrow> string \<Rightarrow> xml option" where
  "getProp (Obj kvs) k = map_of kvs k"
| "getProp (Str s) k = None"
| "getProp (Arr vs) k = None"

text \<open>Truthiness: \<open>undefined\<close> and the empty string are falsy, objects and arrays truthy.\<close>

fun truthy :: "xml option \<Rightarrow> bool" where
  "truthy None = False"
| "truthy (Some (Str s)) = (s \<noteq> [])"
| "truthy (Some v) = True"

text \<open>\<open>node[k]\<close> read as a string, and \<open>node[k] || d\<close>.\<close>

definition strProp :: "xml \<Rightarrow> string \<Rightarrow> string option" where
  "strProp node k = (case getProp node k of Some (Str s) \<Rightarrow> Some s | _ \<Rightarrow> None)"

definition strOr :: "string option \<Rightarrow> string \<Rightarrow> string" where
  "strOr v d = (case v of Some s \<Rightarrow> if s \<noteq> [] then s else d | None \<Rightarrow> d)"

text \<open>A template literal \<open>${v}\<close> of a string that may be \<open>undefined\<close>.\<close>

definition tmpl :: "string option \<Rightarrow> string" where
  "tmpl v = (case v of Some s \<Rightarrow> s | None \<Rightarrow> ''undefined'')"

text \<open>\<open>Array.isArray(v) ? v : v ? [v] : []\<close>.\<close>

definition asList :: "xml option \<Rightarrow> xml list" where
  "asList v = (case v of Some (Arr vs) \<Rightarrow> vs | Some x \<Rightarrow> if truthy v then [x] else [] | None \<Rightarrow> [])"

text \<open>\<open>(Array.isArray(v) ? v : [v]).filter(Boolean)\<close>.\<close>

definition truthyList :: "xml option \<Rightarrow> xml list" where
  "truthyList v =
     (case v of
        Some (Arr vs) \<Rightarrow> filter (\<lambda>x. truthy (Some x)) vs
      | Some x \<Rightarrow> if truthy v then [x] else []
      | None \<Rightarrow> [])"

text \<open>White space as \<open>trim\<close> and the pattern \<open>\s\<close> see it, among the 8-bit code units.\<close>

definition isSpace :: "char \<Rightarrow> bool" where
  "isSpace c = (of_char c \<in> {9, 10, 11, 12, 13, 32, 160 :: nat})"

definition trim :: "string \<Rightarrow> string" where
  "trim s = rev (dropWhile isSpace (rev (dropWhile isSpace s)))"

fun join :: "string \<Rightarrow> string list \<Rightarrow> string" where
  "join sep [] = []"
| "join sep [x] = x"
| "join sep (x # y # ys) = x @ sep @ join sep (y # ys)"

text \<open>\<open>s.lastIndexOf(t)\<close>: the greatest position at which \<open>t\<close> occurs in \<open>s\<close>, or \<open>-1\<close>.\<close>

fun lastIndexOfFrom :: "int \<Rightarrow> int \<Rightarrow> string \<Rightarrow> string \<Rightarrow> int" where
  "lastIndexOfFrom found i [] t = (if t = [] then i else found)"
| "lastIndexOfFrom found i (c # cs) t =
     lastIndexOfFrom (if prefix t (c # cs) then i else found) (i + 1) cs t"

definition lastIndexOf :: "string \<Rightarrow> string \<Rightarrow> int" where
  "lastIndexOf s t = lastIndexOfFrom (-1) 0 s t"

text \<open>
  \<open>parseInt(s, 10)\<close>: leading white space, a sign, then the longest run of decimal digits;
  \<open>None\<close> is \<open>NaN\<close>.
\<close>

definition isDigit :: "char \<Rightarrow> bool" where
  "isDigit c = (48 \<le> (of_char c :: nat) \<and> (of_char c :: nat) \<le> 57)"

definition digitsValue :: "string \<Rightarrow> nat" where
  "digitsValue ds = foldl (\<lambda>a c. 10 * a + (of_char c - 48)) 0 ds"

definition parseInt :: "string \<Rightarrow> int option" where
  "parseInt s =
     (let s1 = dropWhile isSpace s;
          neg = (case s1 of c # r \<Rightarrow> c = CHR ''-'' | [] \<Rightarrow> False);
          s2 = (case s1 of c # r \<Rightarrow> if c = CHR ''-'' \<or> c = CHR ''+'' then r else s1 | [] \<Rightarrow> []);
          ds = takeWhile isDigit s2
      in if ds = [] then None
         else Some (if neg then - int (digitsValue ds) else int (digitsValue ds)))"


section \<open>Base builder (parser/entity-builders/base.ts)\<close>

definition toArray :: "xml \<Rightarrow> xml list" where
  "toArray v = (case v of Arr vs \<Rightarrow> vs | _ \<Rightarrow> [v])"

definition paraProp :: "(string \<times> xml) list \<Rightarrow> xml list option" where
  "paraProp kvs =
     (case map_of kvs ''para'' of
        Some p \<Rightarrow> if truthy (Some p) then Some (toArray p) else None
      | None \<Rightarrow> None)"

definition textProp :: "(string \<times> xml) list \<Rightarrow> string option" where
  "textProp kvs =
     (case map_of kvs ''#text'' of
        Some (Str t) \<Rightarrow> if t \<noteq> [] then Some t else None
      | _ \<Rightarrow> None)"

lemma map_of_size:
  "map_of kvs k = Some v \<Longrightarrow> size v < Suc (size_list (size_prod (\<lambda>x. 0) size) kvs)"
  by (induction kvs) (auto split: if_splits)

lemma toArray_size: "p \<in> set (toArray v) \<Longrightarrow> size p \<le> size v"
  by (cases v)
    (auto simp: toArray_def less_imp_le dest: size_list_estimation'[where f=size and y = "size p"])

lemma paraProp_size:
  "paraProp kvs = Some ps \<Longrightarrow> p \<in> set ps \<Longrightarrow> size p < size (Obj kvs)"
  using map_of_size[of kvs "''para''"] toArray_size[of p]
  by (fastforce simp: paraProp_def split: option.splits if_splits)

lemma snd_size: "(k, v) \<in> set kvs \<Longrightarrow> size v < size (Obj kvs)"
  by (induction kvs) fastforce+

text \<open>
  \<open>extractText\<close>, the recursive flattening: a string is returned as it is; paragraphs
  (\<open>para\<close>, one or an array) are flattened and joined with a newline; otherwise the node's own
  text (\<open>#text\<close>) is returned if it has any; otherwise the values of all properties are
  flattened and joined with a space. An array is an object without \<open>para\<close> and \<open>#text\<close>
  whose values are its elements.
\<close>

function extractText :: "xml \<Rightarrow> string" where
  "extractText (Str s) = s"
| "extractText (Arr vs) = trim (join '' '' (map extractText vs))"
| "extractText (Obj kvs) =
     (case paraProp kvs of
        Some paras \<Rightarrow> trim (join [CHR 0x0A] (map extractText paras))
      | None \<Rightarrow>
          (case textProp kvs of
             Some t \<Rightarrow> t
           | None \<Rightarrow> trim (join '' '' (map extractText (map snd kvs)))))"
  by pat_completeness auto
termination
  by (relation "measure size")
    (auto simp: less_Suc_eq_le size_list_estimation' dest: paraProp_size snd_size)

definition extractName :: "xml \<Rightarrow> string" where
  "extractName xmlNode = strOr (strProp xmlNode ''compoundname'') (strOr (strProp xmlNode ''name'') [])"

definition extractQualifiedName :: "xml \<Rightarrow> string" where
  "extractQualifiedName xmlNode =
     strOr (strProp xmlNode ''qualifiedname'')
       (strOr (strProp xmlNode ''compoundname'') (strOr (strProp xmlNode ''name'') []))"

definition extractFile :: "xml \<Rightarrow> string" where
  "extractFile xmlNode =
     (case getProp xmlNode ''location'' of
        Some location \<Rightarrow> strOr (strProp location ''@_file'') []
      | None \<Rightarrow> [])"

definition extractLine :: "xml \<Rightarrow> int option" where
  "extractLine xmlNode =
     (case getProp xmlNode ''location'' of
        Some location \<Rightarrow>
          (case strProp location ''@_line'' of
             Some l \<Rightarrow> if l \<noteq> [] then parseInt l else Some 0
           | None \<Rightarrow> Some 0)
      | None \<Rightarrow> Some 0)"

definition extractBriefDescription :: "xml \<Rightarrow> string option" where
  "extractBriefDescription xmlNode =
     (let brief = getProp xmlNode ''briefdescription''
      in if \<not> truthy brief then None else map_option extractText brief)"

definition extractDetailedDescription :: "xml \<Rightarrow> string option" where
  "extractDetailedDescription xmlNode =
     (let detailed = getProp xmlNode ''detaileddescription''
      in if \<not> truthy detailed then None else map_option extractText detailed)"

definition extractVisibility :: "xml \<Rightarrow> Visibility option" where
  "extractVisibility xmlNode =
     (let prot = strProp xmlNode ''@_prot''
      in if prot = Some ''public'' then Some Public
         else if prot = Some ''protected'' then Some Protected
         else if prot = Some ''private'' then Some Private
         else None)"

text \<open>
  \<open>buildBase\<close> gives the common fields; every builder spreads them into its entity and adds
  the \<open>kind\<close> and its own fields, here the arguments \<open>k\<close> and \<open>d\<close>.
\<close>

definition buildBase :: "xml \<Rightarrow> EntityKind \<Rightarrow> EntityDetails \<Rightarrow> DoxygenEntity" where
  "buildBase xmlNode k d =
     \<lparr>id_e = strOr (strProp xmlNode ''@_id'') [],
      name = extractName xmlNode,
      qualifiedName = extractQualifiedName xmlNode,
      kind = k,
      file_e = extractFile xmlNode,
      line = extractLine xmlNode,
      briefDescription = extractBriefDescription xmlNode,
      detailedDescription = extractDetailedDescription xmlNode,
      visibility = extractVisibility xmlNode,
      details = d\<rparr>"


section \<open>Extractors (parser/extractors)\<close>

text \<open>\<open>extractMembers\<close> of members.ts: the member references of a class or namespace.\<close>

definition memberReference :: "xml \<Rightarrow> MemberReference" where
  "memberReference memberDef =
     \<lparr>m_id = strOr (strProp memberDef ''@_id'') [],
      m_name = strOr (strProp memberDef ''name'') [],
      m_kind = strProp memberDef ''@_kind'',
      m_visibility = strOr (strProp memberDef ''@_prot'') ''public''\<rparr>"

definition extractMembers :: "xml \<Rightarrow> MemberReference list" where
  "extractMembers xmlNode =
     concat (map (\<lambda>section. map memberReference (asList (getProp section ''memberdef'')))
                 (asList (getProp xmlNode ''sectiondef'')))"

text \<open>\<open>extractBaseClasses\<close> and the \<open>extractText\<close> local to its file.\<close>

definition refText :: "xml \<Rightarrow> string" where
  "refText node = (case node of Str s \<Rightarrow> s | _ \<Rightarrow> strOr (strProp node ''#text'') [])"

definition extractBaseClasses :: "xml \<Rightarrow> BaseClass list" where
  "extractBaseClasses xmlNode =
     (let baseCompoundRefs = getProp xmlNode ''basecompoundref''
      in if \<not> truthy baseCompoundRefs then []
         else map (\<lambda>r. \<lparr>bc_name = refText r,
                          bc_qualifiedName = strOr (strProp r ''@_refid'') (refText r),
                          bc_visibility = strOr (strProp r ''@_prot'') ''public'',
                          bc_isVirtual = (strProp r ''@_virt'' = Some ''virtual'')\<rparr>)
                  (truthyList baseCompoundRefs))"


section \<open>Entity builders (parser/entity-builders)\<close>

text \<open>The derived namespace: the text before the last \<open>::\<close> of a qualified name.\<close>

definition extractNamespace :: "string \<Rightarrow> string option" where
  "extractNamespace qName =
     (let lastColon = lastIndexOf qName ''::''
      in if lastColon = -1 then None else Some (substring qName 0 lastColon))"

definition checkIsAbstract :: "xml \<Rightarrow> bool" where
  "checkIsAbstract xmlNode =
     list_ex (\<lambda>section. list_ex (\<lambda>member. strProp member ''@_virt'' = Some ''pure-virtual'')
                                 (asList (getProp section ''memberdef'')))
             (asList (getProp xmlNode ''sectiondef''))"

text \<open>
  Class builder. The factory hands it a node whose \<open>kind\<close> is \<open>class\<close> or \<open>struct\<close>, and it
  casts that attribute to the entity kind.
\<close>

definition buildClass :: "xml \<Rightarrow> DoxygenEntity" where
  "buildClass xmlNode =
     buildBase xmlNode
       (if strProp xmlNode ''@_kind'' = Some ''struct'' then KStruct else KClass)
       (ClassDetails (extractBaseClasses xmlNode) (extractMembers xmlNode)
          (checkIsAbstract xmlNode) (extractNamespace (extractQualifiedName xmlNode)))"

text \<open>Function builder; \<open>extractExceptions\<close> is a placeholder that gives \<open>undefined\<close>.\<close>

definition extractReturnType :: "xml \<Rightarrow> string" where
  "extractReturnType xmlNode =
     (let type = getProp xmlNode ''type''
      in if \<not> truthy type then ''void'' else extractText (the type))"

definition extractExceptions :: "xml \<Rightarrow> string list option" where
  "extractExceptions xmlNode = None"

definition buildFunction :: "xml \<Rightarrow> DoxygenEntity option \<Rightarrow> DoxygenEntity" where
  "buildFunction xmlNode parent =
     (let k = (case parent of
                 Some p \<Rightarrow> if kind p = KClass \<or> kind p = KStruct then KMethod else KFunction
               | None \<Rightarrow> KFunction);
          virt = strProp xmlNode ''@_virt''
      in buildBase xmlNode k
           (FunctionDetails (extractReturnType xmlNode)
              (strProp xmlNode ''@_const'' = Some ''yes'')
              (strProp xmlNode ''@_static'' = Some ''yes'')
              (virt = Some ''virtual'' \<or> virt = Some ''pure-virtual'')
              (strProp xmlNode ''@_inline'' = Some ''yes'')
              (virt = Some ''pure-virtual'')
              (if k = KMethod then map_option qualifiedName parent else None)
              (extractNamespace (extractQualifiedName xmlNode))
              (extractExceptions xmlNode)))"

text \<open>Namespace builder.\<close>

definition buildNamespace :: "xml \<Rightarrow> DoxygenEntity" where
  "buildNamespace xmlNode =
     buildBase xmlNode KNamespace
       (NamespaceDetails (extractMembers xmlNode)
          (extractNamespace (strOr (Some (extractQualifiedName xmlNode)) (extractName xmlNode))))"

text \<open>Enum builder.\<close>

text \<open>\<open>value.replace(/^\s*=\s*/, '')\<close>: a leading \<open>=\<close> with the white space around it.\<close>

definition stripLeadingEquals :: "string \<Rightarrow> string" where
  "stripLeadingEquals s =
     (case dropWhile isSpace s of
        c # r \<Rightarrow> if c = CHR ''='' then dropWhile isSpace r else s
      | [] \<Rightarrow> s)"

definition extractExplicitValue :: "xml \<Rightarrow> string option" where
  "extractExplicitValue enumValNode =
     (let initializer = getProp enumValNode ''initializer''
      in if \<not> truthy initializer then None
         else (let v = trim (stripLeadingEquals (extractText (the initializer)))
               in if v \<noteq> [] then Some v else None))"

definition buildEnumValue :: "xml \<Rightarrow> EnumValue" where
  "buildEnumValue enumValNode =
     \<lparr>ev_name = strOr (strProp enumValNode ''name'') [],
      ev_value = extractExplicitValue enumValNode,
      ev_description = extractBriefDescription enumValNode\<rparr>"

definition extractEnumValues :: "xml \<Rightarrow> EnumValue list" where
  "extractEnumValues xmlNode =
     (let enumVals = getProp xmlNode ''enumvalue''
      in if \<not> truthy enumVals then [] else map buildEnumValue (truthyList enumVals))"

definition checkIsStrongEnum :: "xml \<Rightarrow> bool" where
  "checkIsStrongEnum xmlNode = (strProp xmlNode ''@_strong'' = Some ''yes'')"

definition extractUnderlyingType :: "xml \<Rightarrow> string option" where
  "extractUnderlyingType xmlNode =
     (let type = getProp xmlNode ''type''
      in if \<not> truthy type then None
         else (let typeStr = extractText (the type)
               in if typeStr = [] \<or> trim typeStr = [] then None else Some (trim typeStr)))"

definition buildEnum :: "xml \<Rightarrow> DoxygenEntity" where
  "buildEnum xmlNode =
     buildBase xmlNode KEnum
       (EnumDetails (extractEnumValues xmlNode) (checkIsStrongEnum xmlNode)
          (extractUnderlyingType xmlNode))"

text \<open>The factory and the builders' common \<open>build(xmlNode, parent)\<close>.\<close>

datatype Builder =
  ClassEntityBuilder | FunctionEntityBuilder | NamespaceEntityBuilder | EnumEntityBuilder

definition getBuilder :: "string option \<Rightarrow> error + Builder" where
  "getBuilder k =
     (if k = Some ''class'' \<or> k = Some ''struct'' then Inr ClassEntityBuilder
      else if k = Some ''function'' then Inr FunctionEntityBuilder
      else if k = Some ''namespace'' then Inr NamespaceEntityBuilder
      else if k = Some ''enum'' then Inr EnumEntityBuilder
      else Inl (Error (''Unsupported entity kind: '' @ tmpl k)))"

fun build :: "Builder \<Rightarrow> xml \<Rightarrow> DoxygenEntity option \<Rightarrow> DoxygenEntity" where
  "build ClassEntityBuilder xmlNode parent = buildClass xmlNode"
| "build FunctionEntityBuilder xmlNode parent = buildFunction xmlNode parent"
| "build NamespaceEntityBuilder xmlNode parent = buildNamespace xmlNode"
| "build EnumEntityBuilder xmlNode parent = buildEnum xmlNode"


section \<open>Parse orchestrator (parser/doxygen-parser.ts, parser/xml-reader.ts)\<close>

datatype Severity = SevWarning | SevError

record ParseError =
  pe_file :: string
  pe_entityId :: "string option"
  pe_message :: string
  severity :: Severity

record ParseMetadata =
  doxygenVersion :: string
  totalFiles :: nat
  totalEntitiesParsed :: nat
  fromCache :: bool

record ParseResult =
  pr_entities :: "DoxygenEntity list"
  metadata :: ParseMetadata
  errors :: "ParseError list"

text \<open>The merged options the parser reads (\<open>includePrivate\<close> is \<open>false\<close> when not given).\<close>

record ParseOptions =
  entityTypes_p :: "EntityKind list option"
  includePrivate :: bool

record CompoundInfo =
  refid :: "string option"
  ci_kind :: "string option"
  ci_name :: "string option"

record DoxygenIndex =
  version :: string
  compounds :: "CompoundInfo list"

text \<open>
  The world outside the program: the directory listing and the file contents of the file
  system, \<open>path.join\<close>, and the parser of the fast-xml-parser library; a failure of one of
  them is the thrown error.
\<close>

record Env =
  readdir :: "string \<Rightarrow> error + string list"
  readFile :: "string \<Rightarrow> error + string"
  pathJoin :: "string \<Rightarrow> string \<Rightarrow> string"
  xmlParse :: "string \<Rightarrow> error + xml"

fun message :: "error \<Rightarrow> string" where
  "message (Error m) = m"

definition endsWith :: "string \<Rightarrow> string \<Rightarrow> bool" where
  "endsWith s t = suffix t s"

definition findDoxygenFiles :: "Env \<Rightarrow> string \<Rightarrow> error + string list" where
  "findDoxygenFiles env xmlPath =
     (case readdir env xmlPath of
        Inl e \<Rightarrow> Inl (Error (''Cannot read XML directory: '' @ message e))
      | Inr entries \<Rightarrow>
          Inr (map (pathJoin env xmlPath) (filter (\<lambda>entry. endsWith entry ''.xml'') entries)))"

definition readXMLFile :: "Env \<Rightarrow> string \<Rightarrow> error + string" where
  "readXMLFile env filePath =
     (case readFile env filePath of
        Inl e \<Rightarrow> Inl (Error (''Cannot read XML file '' @ filePath @ '': '' @ message e))
      | Inr content \<Rightarrow> Inr content)"

definition parseIndexFile :: "Env \<Rightarrow> string \<Rightarrow> error + DoxygenIndex" where
  "parseIndexFile env indexPath =
     (case readXMLFile env indexPath of
        Inl e \<Rightarrow> Inl e
      | Inr content \<Rightarrow>
          (case xmlParse env content of
             Inl e \<Rightarrow> Inl e
           | Inr parsed \<Rightarrow>
               (let index = getProp parsed ''doxygenindex''
                in if \<not> truthy index then Inl (Error ''Invalid index.xml structure'')
                   else Inr \<lparr>version = strOr (strProp (the index) ''@_version'') ''unknown'',
                             compounds =
                               map (\<lambda>c. \<lparr>refid = strProp c ''@_refid'',
                                          ci_kind = strProp c ''@_kind'',
                                          ci_name = strProp c ''name''\<rparr>)
                                   (truthyList (getProp (the index) ''compound''))\<rparr>)))"

definition typeMap :: "string option \<Rightarrow> EntityKind list" where
  "typeMap k =
     (if k = Some ''class'' then [KClass, KMethod]
      else if k = Some ''struct'' then [KStruct, KMethod]
      else if k = Some ''namespace'' then [KNamespace]
      else if k = Some ''file'' then [KFunction]
      else if k = Some ''enum'' then [KEnum]
      else [])"

definition shouldLoadCompound :: "ParseOptions \<Rightarrow> string option \<Rightarrow> bool" where
  "shouldLoadCompound opts k =
     list_ex (\<lambda>t. case entityTypes_p opts of None \<Rightarrow> True | Some ts \<Rightarrow> t \<in> set ts) (typeMap k)"

definition filterCompounds :: "ParseOptions \<Rightarrow> CompoundInfo list \<Rightarrow> CompoundInfo list" where
  "filterCompounds opts cs =
     (case entityTypes_p opts of
        None \<Rightarrow> cs
      | Some ts \<Rightarrow> if length ts = 0 then cs
                   else filter (\<lambda>c. shouldLoadCompound opts (ci_kind c)) cs)"

definition shouldIncludeEntity :: "ParseOptions \<Rightarrow> DoxygenEntity \<Rightarrow> bool" where
  "shouldIncludeEntity opts e =
     (if (case entityTypes_p opts of Some ts \<Rightarrow> kind e \<notin> set ts | None \<Rightarrow> False) then False
      else if \<not> includePrivate opts \<and> visibility e = Some Private then False
      else True)"

text \<open>
  The \<open>try\<close> block of the member loop: \<open>getBuilder\<close> may throw, and the \<open>catch\<close> turns the
  thrown error into a warning.
\<close>

definition buildMember :: "xml \<Rightarrow> DoxygenEntity \<Rightarrow> error + DoxygenEntity" where
  "buildMember memberDef parent =
     (case getBuilder (strProp memberDef ''@_kind'') of
        Inl e \<Rightarrow> Inl e
      | Inr builder \<Rightarrow> Inr (build builder memberDef (Some parent)))"

definition memberWarning :: "xml \<Rightarrow> DoxygenEntity \<Rightarrow> error \<Rightarrow> ParseError" where
  "memberWarning memberDef parent e =
     \<lparr>pe_file = id_e parent @ ''.xml'',
      pe_entityId = strProp memberDef ''@_id'',
      pe_message = ''Failed to parse member: '' @ message e,
      severity = SevWarning\<rparr>"

text \<open>
  The loops push onto \<open>members\<close> and onto \<open>this.errors\<close>; the state of a loop is the pair of
  the two arrays.
\<close>

fun memberLoop ::
  "DoxygenEntity \<Rightarrow> xml list \<Rightarrow> DoxygenEntity list \<times> ParseError list \<Rightarrow>
   DoxygenEntity list \<times> ParseError list" where
  "memberLoop parent [] st = st"
| "memberLoop parent (memberDef # rest) (ms, errs) =
     (case buildMember memberDef parent of
        Inr member \<Rightarrow> memberLoop parent rest (ms @ [member], errs)
      | Inl e \<Rightarrow> memberLoop parent rest (ms, errs @ [memberWarning memberDef parent e]))"

fun sectionLoop ::
  "DoxygenEntity \<Rightarrow> xml list \<Rightarrow> DoxygenEntity list \<times> ParseError list \<Rightarrow>
   DoxygenEntity list \<times> ParseError list" where
  "sectionLoop parent [] st = st"
| "sectionLoop parent (section # rest) st =
     sectionLoop parent rest (memberLoop parent (asList (getProp section ''memberdef'')) st)"

definition extractMemberEntities ::
  "xml \<Rightarrow> DoxygenEntity \<Rightarrow> ParseError list \<Rightarrow> DoxygenEntity list \<times> ParseError list" where
  "extractMemberEntities compoundDef parent errs =
     sectionLoop parent (asList (getProp compoundDef ''sectiondef'')) ([], errs)"

text \<open>
  \<open>parseCompoundFile\<close>: the entities of one compound, or the error it throws, together with
  the error list as the call leaves it.
\<close>

definition compoundFilePath :: "string \<Rightarrow> CompoundInfo \<Rightarrow> string" where
  "compoundFilePath xmlPath compound = xmlPath @ ''/'' @ tmpl (refid compound) @ ''.xml''"

definition parseCompoundFile ::
  "Env \<Rightarrow> ParseOptions \<Rightarrow> string \<Rightarrow> CompoundInfo \<Rightarrow> ParseError list \<Rightarrow>
   (error + DoxygenEntity list) \<times> ParseError list" where
  "parseCompoundFile env opts xmlPath compound errs =
     (case readXMLFile env (compoundFilePath xmlPath compound) of
        Inl e \<Rightarrow> (Inl e, errs)
      | Inr content \<Rightarrow>
          (case xmlParse env content of
             Inl e \<Rightarrow> (Inl e, errs)
           | Inr parsed \<Rightarrow>
               (let compoundDef = (case getProp parsed ''doxygen'' of
                                     Some d \<Rightarrow> getProp d ''compounddef''
                                   | None \<Rightarrow> None)
                in if \<not> truthy compoundDef
                   then (Inl (Error ''Invalid compound XML structure''), errs)
                   else (case getBuilder (strProp (the compoundDef) ''@_kind'') of
                           Inl e \<Rightarrow> (Inl e, errs)
                         | Inr builder \<Rightarrow>
                             (let mainEntity = build builder (the compoundDef) None;
                                  es = (if shouldIncludeEntity opts mainEntity
                                        then [mainEntity] else []);
                                  (ms, errs') =
                                    extractMemberEntities (the compoundDef) mainEntity errs
                              in (Inr (es @ filter (shouldIncludeEntity opts) ms), errs'))))))"

definition compoundError :: "CompoundInfo \<Rightarrow> error \<Rightarrow> ParseError" where
  "compoundError compound e =
     \<lparr>pe_file = tmpl (refid compound) @ ''.xml'',
      pe_entityId = None,
      pe_message = ''Failed to parse compound: '' @ message e,
      severity = SevError\<rparr>"

fun compoundLoop ::
  "Env \<Rightarrow> ParseOptions \<Rightarrow> string \<Rightarrow> CompoundInfo list \<Rightarrow>
   DoxygenEntity list \<times> ParseError list \<Rightarrow> DoxygenEntity list \<times> ParseError list" where
  "compoundLoop env opts xmlPath [] st = st"
| "compoundLoop env opts xmlPath (compound # rest) (es, errs) =
     (case parseCompoundFile env opts xmlPath compound errs of
        (Inr compoundEntities, errs') \<Rightarrow>
          compoundLoop env opts xmlPath rest (es @ compoundEntities, errs')
      | (Inl e, errs') \<Rightarrow>
          compoundLoop env opts xmlPath rest (es, errs' @ [compoundError compound e]))"

definition parseCompounds ::
  "Env \<Rightarrow> ParseOptions \<Rightarrow> string \<Rightarrow> CompoundInfo list \<Rightarrow> ParseError list \<Rightarrow>
   DoxygenEntity list \<times> ParseError list" where
  "parseCompounds env opts xmlPath cs errs = compoundLoop env opts xmlPath cs ([], errs)"

text \<open>
  \<open>parse\<close>: the error list starts empty; a failure before the compounds are read is thrown
  on, wrapped; the clock and the date of the metadata are left out.
\<close>

definition parseSteps :: "Env \<Rightarrow> ParseOptions \<Rightarrow> string \<Rightarrow> error + ParseResult" where
  "parseSteps env opts xmlPath =
     (case findDoxygenFiles env xmlPath of
        Inl e \<Rightarrow> Inl e
      | Inr files \<Rightarrow>
          (case find (\<lambda>f. endsWith f ''index.xml'') files of
             None \<Rightarrow> Inl (Error ''index.xml not found in Doxygen output'')
           | Some indexFile \<Rightarrow>
               (case parseIndexFile env indexFile of
                  Inl e \<Rightarrow> Inl e
                | Inr index \<Rightarrow>
                    (let compoundsToLoad = filterCompounds opts (compounds index);
                         (es, errs) = parseCompounds env opts xmlPath compoundsToLoad []
                     in Inr \<lparr>pr_entities = es,
                             metadata = \<lparr>doxygenVersion = version index,
                                          totalFiles = length files,
                                          totalEntitiesParsed = length es,
                                          fromCache = False\<rparr>,
                             errors = errs\<rparr>))))"

definition parse :: "Env \<Rightarrow> ParseOptions \<Rightarrow> string \<Rightarrow> error + ParseResult" where
  "parse env opts xmlPath =
     (case parseSteps env opts xmlPath of
        Inl e \<Rightarrow> Inl (Error (''Failed to parse Doxygen XML: '' @ message e))
      | Inr r \<Rightarrow> Inr r)"


section \<open>Example data\<close>

text \<open>Entities, options, queries and engines for the concrete instances below.\<close>

abbreviation (input) mkEntity ::
  "string \<Rightarrow> string \<Rightarrow> string \<Rightarrow> EntityKind \<Rightarrow> string option \<Rightarrow> DoxygenEntity" where
  "mkEntity i n qn k d \<equiv>
     \<lparr>id_e = i, name = n, qualifiedName = qn, kind = k, file_e = [], line = Some 0,
      briefDescription = d, detailedDescription = None, visibility = None,
      details = NoDetails\<rparr>"

abbreviation (input) mkOptions :: "int \<Rightarrow> SearchOptions" where
  "mkOptions n \<equiv>
     \<lparr>caseSensitive = False, exactMatch = False, fuzzyThreshold = None, maxResults = n,
      enableHighlights = False, includeDescriptions = True, cacheResults = True\<rparr>"

abbreviation (input) mkQuery :: "string \<Rightarrow> bool option \<Rightarrow> int option \<Rightarrow> SearchQuery" where
  "mkQuery t em n \<equiv> \<lparr>term_q = t, entityTypes = None, exactMatch_q = em, maxResults_q = n\<rparr>"

abbreviation (input) mkEngine :: "int \<Rightarrow> DoxygenEntity list \<Rightarrow> SimpleSearchEngine" where
  "mkEngine n es \<equiv> \<lparr>options = mkOptions n, entities = es, stats = None\<rparr>"

abbreviation (input) mkFuzzy :: "int \<Rightarrow> DoxygenEntity list \<Rightarrow> FuzzySearchEngine" where
  "mkFuzzy n es \<equiv>
     \<lparr>options = mkOptions n, entities = es,
      fuse = Some \<lparr>fuse_list = es, fuse_threshold = 4 / 10\<rparr>, fuzzyStats = None\<rparr>"

abbreviation (input) allItems :: FuseSearch where
  "allItems \<equiv> (\<lambda>fz t. map (\<lambda>e. \<lparr>item = e, fr_score = Some 0, fr_matches = None\<rparr>) (fuse_list fz))"


abbreviation (input) colorNode :: xml where
  "colorNode \<equiv>
     Obj [(''@_id'', Str ''e1''), (''name'', Str ''Color''), (''type'', Str ''  ''),
          (''enumvalue'',
             Arr [Obj [(''name'', Str ''RED''), (''initializer'', Str ''= 0xFF0000'')],
                  Obj [(''name'', Str ''GREEN'')],
                  Obj [(''name'', Str ''BLUE''), (''initializer'', Str ''=  '')],
                  Obj [(''name'', Str ''ALPHA''),
                       (''initializer'', Obj [(''#text'', Str ''= RED |''), (''ref'', Str ''GREEN'')])]])]"

abbreviation (input) indexDoc :: xml where
  "indexDoc \<equiv>
     Obj [(''doxygenindex'',
       Obj [(''@_version'', Str ''1.9.1''),
            (''compound'',
               Arr [Obj [(''@_refid'', Str ''classA''), (''@_kind'', Str ''class''), (''name'', Str ''A'')],
                    Obj [(''@_refid'', Str ''broken''), (''@_kind'', Str ''class''), (''name'', Str ''Broken'')],
                    Obj [(''@_refid'', Str ''namespaceB''), (''@_kind'', Str ''namespace''),
                         (''name'', Str ''B'')]])])]"

abbreviation (input) classDoc :: xml where
  "classDoc \<equiv>
     Obj [(''doxygen'',
       Obj [(''compounddef'',
         Obj [(''@_id'', Str ''classA''), (''@_kind'', Str ''class''), (''compoundname'', Str ''A''),
              (''sectiondef'',
                 Arr [Obj [(''memberdef'',
                   Arr [Obj [(''@_kind'', Str ''function''), (''@_id'', Str ''m1''),
                             (''name'', Str ''draw'')],
                        Obj [(''@_kind'', Str ''variable''), (''@_id'', Str ''m2''),
                             (''name'', Str ''x'')]])]])])])]"

abbreviation (input) namespaceDoc :: xml where
  "namespaceDoc \<equiv>
     Obj [(''doxygen'',
       Obj [(''compounddef'',
         Obj [(''@_id'', Str ''namespaceB''), (''@_kind'', Str ''namespace''),
              (''compoundname'', Str ''B'')])])]"

abbreviation (input) exampleEnv :: Env where
  "exampleEnv \<equiv>
     \<lparr>readdir = (\<lambda>p. Inr [''index.xml'', ''classA.xml'', ''broken.xml'', ''namespaceB.xml'',
                           ''notes.txt'']),
      readFile = (\<lambda>p. if p = ''xml/index.xml'' then Inr ''I''
                       else if p = ''xml/classA.xml'' then Inr ''A''
                       else if p = ''xml/broken.xml'' then Inr ''X''
                       else if p = ''xml/namespaceB.xml'' then Inr ''B''
                       else Inl (Error ''ENOENT'')),
      pathJoin = (\<lambda>d f. d @ ''/'' @ f),
      xmlParse = (\<lambda>s. if s = ''I'' then Inr indexDoc
                       else if s = ''A'' then Inr classDoc
                       else if s = ''B'' then Inr namespaceDoc
                       else Inr (Obj [(''html'', Str ''oops'')]))\<rparr>"

abbreviation (input) exampleOptions :: ParseOptions where
  "exampleOptions \<equiv> \<lparr>entityTypes_p = None, includePrivate = False\<rparr>"

abbreviation (input) mkCompound :: "string \<Rightarrow> string \<Rightarrow> string \<Rightarrow> CompoundInfo" where
  "mkCompound r k n \<equiv> \<lparr>refid = Some r, ci_kind = Some k, ci_name = Some n\<rparr>"

section \<open>Notions used in the statements about the parser\<close>

text \<open>
  The member definitions of a compound in document order; of a list of member definitions,
  the entities of those that build and the warnings of those that do not; the outcome of
  one compound; and, of a list of compounds, the entities of those that load and the errors
  of those that do not.
\<close>

definition memberDefs :: "xml \<Rightarrow> xml list" where
  "memberDefs compoundDef =
     concat (map (\<lambda>s. asList (getProp s ''memberdef'')) (asList (getProp compoundDef ''sectiondef'')))"

definition builtMembers :: "DoxygenEntity \<Rightarrow> xml list \<Rightarrow> DoxygenEntity list" where
  "builtMembers parent mds =
     List.map_filter (\<lambda>md. case buildMember md parent of Inr m \<Rightarrow> Some m | Inl e \<Rightarrow> None) mds"

definition memberWarnings :: "DoxygenEntity \<Rightarrow> xml list \<Rightarrow> ParseError list" where
  "memberWarnings parent mds =
     List.map_filter (\<lambda>md. case buildMember md parent of
                              Inl e \<Rightarrow> Some (memberWarning md parent e) | Inr m \<Rightarrow> None) mds"

definition compoundResult ::
  "Env \<Rightarrow> ParseOptions \<Rightarrow> string \<Rightarrow> CompoundInfo \<Rightarrow> error + DoxygenEntity list" where
  "compoundResult env opts xmlPath c = fst (parseCompoundFile env opts xmlPath c [])"

definition loadedEntities ::
  "Env \<Rightarrow> ParseOptions \<Rightarrow> string \<Rightarrow> CompoundInfo list \<Rightarrow> DoxygenEntity list" where
  "loadedEntities env opts xmlPath cs =
     concat (map (\<lambda>c. case compoundResult env opts xmlPath c of Inr es \<Rightarrow> es | Inl e \<Rightarrow> []) cs)"

definition compoundErrors ::
  "Env \<Rightarrow> ParseOptions \<Rightarrow> string \<Rightarrow> CompoundInfo list \<Rightarrow> ParseError list" where
  "compoundErrors env opts xmlPath cs =
     List.map_filter (\<lambda>c. case compoundResult env opts xmlPath c of
                             Inl e \<Rightarrow> Some (compoundError c e) | Inr es \<Rightarrow> None) cs"

section \<open>Properties of the string primitives\<close>

lemma includes_s_sublist: "includes_s s t \<longleftrightarrow> sublist t s"
  by (induction s) (auto simp: sublist_Cons_right)

lemma indexOfFrom_none: "\<not> includes_s s t \<Longrightarrow> indexOfFrom i s t = -1"
  by (induction s arbitrary: i) auto

lemma indexOfFrom_shift: "includes_s s t \<Longrightarrow> indexOfFrom i s t = i + indexOfFrom 0 s t"
proof (induction s arbitrary: i)
  case Nil then show ?case by simp
next
  case (Cons c cs)
  show ?case
  proof (cases "prefix t (c # cs)")
    case True then show ?thesis by simp
  next
    case False
    with Cons.prems have inc: "includes_s cs t" by simp
    have "indexOfFrom (i + 1) cs t = i + 1 + indexOfFrom 0 cs t" by (rule Cons.IH[OF inc])
    moreover have "indexOfFrom (0 + 1) cs t = 0 + 1 + indexOfFrom 0 cs t" by (rule Cons.IH[OF inc])
    ultimately show ?thesis using False by simp
  qed
qed

lemma indexOfFrom_first:
  "includes_s s t \<Longrightarrow>
     0 \<le> indexOfFrom 0 s t \<and> indexOfFrom 0 s t + int (length t) \<le> int (length s) \<and>
     prefix t (drop (nat (indexOfFrom 0 s t)) s) \<and>
     (\<forall>k < nat (indexOfFrom 0 s t). \<not> prefix t (drop k s))"
proof (induction s)
  case Nil then show ?case by simp
next
  case (Cons c cs)
  show ?case
  proof (cases "prefix t (c # cs)")
    case True then show ?thesis by (auto dest: prefix_length_le)
  next
    case False
    with Cons.prems have inc: "includes_s cs t" by simp
    note ih = Cons.IH[OF inc]
    have eq: "indexOfFrom 0 (c # cs) t = 1 + indexOfFrom 0 cs t"
      using False indexOfFrom_shift[OF inc, of 1] by simp
    have n: "nat (1 + indexOfFrom 0 cs t) = Suc (nat (indexOfFrom 0 cs t))"
      using ih by (simp add: nat_add_distrib)
    have len: "indexOfFrom 0 cs t + int (length t) \<le> int (length cs)" using ih by blast
    have pre: "prefix t (drop (nat (indexOfFrom 0 cs t)) cs)" using ih by blast
    have mn: "\<forall>k < nat (indexOfFrom 0 cs t). \<not> prefix t (drop k cs)" using ih by blast
    have "\<forall>k < Suc (nat (indexOfFrom 0 cs t)). \<not> prefix t (drop k (c # cs))"
      using mn False by (auto simp: less_Suc_eq_0_disj)
    then show ?thesis unfolding eq n using ih len pre by simp
  qed
qed

lemma indexOf_first:
  "includes_s s t \<Longrightarrow>
     0 \<le> indexOf s t \<and> indexOf s t + int (length t) \<le> int (length s) \<and>
     prefix t (drop (nat (indexOf s t)) s) \<and>
     (\<forall>k < nat (indexOf s t). \<not> prefix t (drop k s))"
  unfolding indexOf_def by (rule indexOfFrom_first)

lemma indexOf_pos:
  assumes inc: "includes_s s t" and np: "\<not> prefix t s"
  shows "0 < indexOf s t"
proof -
  have "0 \<le> indexOf s t" "prefix t (drop (nat (indexOf s t)) s)"
    using indexOf_first[OF inc] by blast+
  then show ?thesis using np by (cases "indexOf s t = 0") auto
qed

lemma scoreField_substring:
  assumes ne: "f \<noteq> t" and np: "\<not> prefix t f" and inc: "includes_s f t"
  shows "scoreField f t n False =
           Some \<lparr>fieldName = n, matchType = Substring,
                 score = 1 / 2 + 3 / 10 * (1 - real_of_int (indexOf f t) / real (length f))\<rparr>"
  using assms by (simp add: scoreField_def startsWith_def Let_def)


section \<open>Properties of the Simple engine\<close>

lemma ratio_lower: "(r::real) \<le> 1 \<Longrightarrow> 1 / 2 \<le> 1 / 2 + 3 / 10 * (1 - r)"
  by simp

lemma ratio_upper: "0 < (r::real) \<Longrightarrow> 1 / 2 + 3 / 10 * (1 - r) < 8 / 10"
  by (simp add: field_simps)

lemma ratio_mono: "(r1::real) < r2 \<Longrightarrow> 5 / 10 + (1 - r2) * (3 / 10) < 5 / 10 + (1 - r1) * (3 / 10)"
  by simp

lemma substring_score_bounds:
  assumes p: "0 < p" and l: "p \<le> int L" 
  shows "1 / 2 \<le> 1 / 2 + 3 / 10 * (1 - real_of_int p / real L)"
    and "1 / 2 + 3 / 10 * (1 - real_of_int p / real L) < 8 / 10"
proof -
  have L: "0 < real L" using p l by linarith
  have "real_of_int p / real L \<le> 1" using l L by (simp add: divide_le_eq)
  then show "1 / 2 \<le> 1 / 2 + 3 / 10 * (1 - real_of_int p / real L)" by (rule ratio_lower)
  have "0 < real_of_int p / real L" using p L by simp
  then show "1 / 2 + 3 / 10 * (1 - real_of_int p / real L) < 8 / 10" by (rule ratio_upper)
qed

lemma scoreField_result:
  assumes "scoreField f t n em = Some m"
  shows "fieldName m = n \<and>
         ((matchType m = Exact \<and> score m = 1 \<and> f = t) \<or>
          (matchType m = Prefix \<and> score m = 9 / 10 \<and> f \<noteq> t \<and> prefix t f \<and> \<not> em) \<or>
          (matchType m = Substring \<and> 1 / 2 \<le> score m \<and> score m \<le> 8 / 10 \<and>
             \<not> prefix t f \<and> sublist t f \<and> \<not> em))"
proof (cases "f = t")
  case True
  with assms show ?thesis by (auto simp: scoreField_def)
next
  case ne: False
  show ?thesis
  proof (cases "prefix t f")
    case True
    with assms ne show ?thesis
      by (auto simp: scoreField_def startsWith_def split: if_splits)
  next
    case np: False
    from assms ne np have inc: "includes_s f t" and em: "\<not> em"
      by (auto simp: scoreField_def startsWith_def split: if_splits)
    have m: "m = \<lparr>fieldName = n, matchType = Substring,
                 score = 1 / 2 + 3 / 10 * (1 - real_of_int (indexOf f t) / real (length f))\<rparr>"
      using scoreField_substring[OF ne np inc, of n] assms em by simp
    have pos: "0 < indexOf f t" by (rule indexOf_pos[OF inc np])
    have le: "indexOf f t \<le> int (length f)" using indexOf_first[OF inc] by linarith
    have gen: "\<And>x::real. 1 / 2 \<le> x \<Longrightarrow> x < 8 / 10 \<Longrightarrow> 1 / 2 \<le> x \<and> x \<le> 8 / 10"
      by simp
    have b: "1 / 2 \<le> score m \<and> score m \<le> 8 / 10"
      using gen[OF substring_score_bounds[OF pos le]] by (simp only: m MatchedField.simps)
    show ?thesis using b np inc em by (simp add: m includes_s_sublist)
  qed
qed

lemma scoreField_nonempty_term:
  assumes t: "t \<noteq> []"
  shows
    "(f = t \<longrightarrow> scoreField f t n em = Some \<lparr>fieldName = n, matchType = Exact, score = 1\<rparr>) \<and>
     (f \<noteq> t \<and> prefix t f \<longrightarrow>
        scoreField f t n False = Some \<lparr>fieldName = n, matchType = Prefix, score = 9 / 10\<rparr>) \<and>
     (\<not> prefix t f \<and> sublist t f \<longrightarrow>
        (\<exists>p. indexOf f t = int p \<and> 0 < p \<and> p < length f \<and>
             prefix t (drop p f) \<and> (\<forall>k < p. \<not> prefix t (drop k f)) \<and>
             scoreField f t n False =
               Some \<lparr>fieldName = n, matchType = Substring,
                     score = 1 / 2 + 3 / 10 * (1 - real p / real (length f))\<rparr> \<and>
             1 / 2 \<le> 1 / 2 + 3 / 10 * (1 - real p / real (length f)) \<and>
             1 / 2 + 3 / 10 * (1 - real p / real (length f)) \<le> 8 / 10)) \<and>
     (\<not> sublist t f \<longrightarrow> scoreField f t n em = None) \<and>
     (\<forall>g m1 m2. length g = length f \<and>
        scoreField f t n False = Some m1 \<and> matchType m1 = Substring \<and>
        scoreField g t n False = Some m2 \<and> matchType m2 = Substring \<and>
        indexOf f t < indexOf g t \<longrightarrow> score m2 < score m1)"
proof (intro conjI impI allI)
  assume "f = t"
  then show "scoreField f t n em = Some \<lparr>fieldName = n, matchType = Exact, score = 1\<rparr>"
    by (simp add: scoreField_def)
next
  assume "f \<noteq> t \<and> prefix t f"
  then show "scoreField f t n False = Some \<lparr>fieldName = n, matchType = Prefix, score = 9 / 10\<rparr>"
    by (simp add: scoreField_def startsWith_def)
next
  assume a: "\<not> prefix t f \<and> sublist t f"
  then have np: "\<not> prefix t f" and inc: "includes_s f t"
    by (simp_all add: includes_s_sublist)
  have ne: "f \<noteq> t" using np by auto
  define p where "p = nat (indexOf f t)"
  have fst: "0 \<le> indexOf f t" "indexOf f t + int (length t) \<le> int (length f)"
    "prefix t (drop (nat (indexOf f t)) f)" "\<forall>k < nat (indexOf f t). \<not> prefix t (drop k f)"
    using indexOf_first[OF inc] by blast+
  have pos: "0 < indexOf f t" by (rule indexOf_pos[OF inc np])
  have ip: "indexOf f t = int p" using fst(1) by (simp add: p_def)
  have lt: "p < length f" using fst(2) t ip by (cases t) auto
  have rp: "real_of_int (indexOf f t) = real p" using ip by simp
  have b1: "1 / 2 \<le> 1 / 2 + 3 / 10 * (1 - real p / real (length f))"
    using substring_score_bounds(1)[of "int p" "length f"] pos ip lt by simp
  have b2: "1 / 2 + 3 / 10 * (1 - real p / real (length f)) \<le> 8 / 10"
    using substring_score_bounds(2)[of "int p" "length f"] pos ip lt by simp
  have sf: "scoreField f t n False =
               Some \<lparr>fieldName = n, matchType = Substring,
                     score = 1 / 2 + 3 / 10 * (1 - real p / real (length f))\<rparr>"
    using scoreField_substring[OF ne np inc] rp by simp
  show "\<exists>p. indexOf f t = int p \<and> 0 < p \<and> p < length f \<and>
             prefix t (drop p f) \<and> (\<forall>k < p. \<not> prefix t (drop k f)) \<and>
             scoreField f t n False =
               Some \<lparr>fieldName = n, matchType = Substring,
                     score = 1 / 2 + 3 / 10 * (1 - real p / real (length f))\<rparr> \<and>
             1 / 2 \<le> 1 / 2 + 3 / 10 * (1 - real p / real (length f)) \<and>
             1 / 2 + 3 / 10 * (1 - real p / real (length f)) \<le> 8 / 10"
    using ip pos lt fst(3,4) sf b1 b2 unfolding p_def[symmetric] by (intro exI[of _ p]) simp
next
  assume "\<not> sublist t f"
  then have ni: "\<not> includes_s f t" by (simp add: includes_s_sublist)
  then have "\<not> prefix t f" "f \<noteq> t" using includes_s_sublist by auto
  then show "scoreField f t n em = None" using ni
    by (simp add: scoreField_def startsWith_def)
next
  fix g m1 m2
  assume a: "length g = length f \<and>
        scoreField f t n False = Some m1 \<and> matchType m1 = Substring \<and>
        scoreField g t n False = Some m2 \<and> matchType m2 = Substring \<and>
        indexOf f t < indexOf g t"
  then have s1: "score m1 = 5 / 10 + (1 - real_of_int (indexOf f t) / real (length f)) * (3 / 10)"
    and incf: "includes_s f t" and npf: "\<not> prefix t f"
    by (auto simp: scoreField_def startsWith_def Let_def split: if_splits)
  from a have s2: "score m2 = 5 / 10 + (1 - real_of_int (indexOf g t) / real (length f)) * (3 / 10)"
    by (auto simp: scoreField_def startsWith_def Let_def split: if_splits)
  have "0 < length f" using indexOf_first[OF incf] indexOf_pos[OF incf npf] by auto
  then have "real_of_int (indexOf f t) / real (length f) < real_of_int (indexOf g t) / real (length f)"
    using a by (simp add: divide_strict_right_mono)
  then show "score m2 < score m1" unfolding s1 s2 by (rule ratio_mono)
qed

text \<open>
  C1. Per-field scoring of the Simple engine, for a non-empty (normalised) term \<open>t\<close> and any
  (normalised) field value \<open>f\<close>: a field equal to the term scores exactly 1, whether or
  not exact matching is requested; with exact matching off, a field of which the term is a
  proper prefix scores exactly 9/10, and a field in which the term first occurs at a position
  \<open>p > 0\<close> scores \<open>1/2 + 3/10 * (1 - p / length f)\<close>, a value between 1/2 and 8/10; a
  field in which the term does not occur gives no match; and of two fields of the same
  length with substring matches, the one whose match starts earlier scores strictly higher.
  Whatever the exact-match flag, a match that \<open>scoreField\<close> returns is an exact match of
  score 1 for an equal field, a prefix match of score 9/10 for a proper prefix, or a
  substring match of a score between 1/2 and 8/10 for a later occurrence; the flag only
  suppresses the last two.
\<close>

theorem scoreField_tiers:
  assumes t: "t \<noteq> []"
  shows
    "((f = t \<longrightarrow> scoreField f t n em = Some \<lparr>fieldName = n, matchType = Exact, score = 1\<rparr>) \<and>
     (f \<noteq> t \<and> prefix t f \<longrightarrow>
        scoreField f t n False = Some \<lparr>fieldName = n, matchType = Prefix, score = 9 / 10\<rparr>) \<and>
     (\<not> prefix t f \<and> sublist t f \<longrightarrow>
        (\<exists>p. indexOf f t = int p \<and> 0 < p \<and> p < length f \<and>
             prefix t (drop p f) \<and> (\<forall>k < p. \<not> prefix t (drop k f)) \<and>
             scoreField f t n False =
               Some \<lparr>fieldName = n, matchType = Substring,
                     score = 1 / 2 + 3 / 10 * (1 - real p / real (length f))\<rparr> \<and>
             1 / 2 \<le> 1 / 2 + 3 / 10 * (1 - real p / real (length f)) \<and>
             1 / 2 + 3 / 10 * (1 - real p / real (length f)) \<le> 8 / 10)) \<and>
     (\<not> sublist t f \<longrightarrow> scoreField f t n em = None) \<and>
     (\<forall>g m1 m2. length g = length f \<and>
        scoreField f t n False = Some m1 \<and> matchType m1 = Substring \<and>
        scoreField g t n False = Some m2 \<and> matchType m2 = Substring \<and>
        indexOf f t < indexOf g t \<longrightarrow> score m2 < score m1)) \<and>
     (\<forall>m. scoreField f t n em = Some m \<longrightarrow>
        fieldName m = n \<and>
        ((matchType m = Exact \<and> score m = 1 \<and> f = t) \<or>
         (matchType m = Prefix \<and> score m = 9 / 10 \<and> f \<noteq> t \<and> prefix t f \<and> \<not> em) \<or>
         (matchType m = Substring \<and> 1 / 2 \<le> score m \<and> score m \<le> 8 / 10 \<and>
            \<not> prefix t f \<and> sublist t f \<and> \<not> em)))"
proof (rule conjI)
  show "(f = t \<longrightarrow> scoreField f t n em = Some \<lparr>fieldName = n, matchType = Exact, score = 1\<rparr>) \<and>
     (f \<noteq> t \<and> prefix t f \<longrightarrow>
        scoreField f t n False = Some \<lparr>fieldName = n, matchType = Prefix, score = 9 / 10\<rparr>) \<and>
     (\<not> prefix t f \<and> sublist t f \<longrightarrow>
        (\<exists>p. indexOf f t = int p \<and> 0 < p \<and> p < length f \<and>
             prefix t (drop p f) \<and> (\<forall>k < p. \<not> prefix t (drop k f)) \<and>
             scoreField f t n False =
               Some \<lparr>fieldName = n, matchType = Substring,
                     score = 1 / 2 + 3 / 10 * (1 - real p / real (length f))\<rparr> \<and>
             1 / 2 \<le> 1 / 2 + 3 / 10 * (1 - real p / real (length f)) \<and>
             1 / 2 + 3 / 10 * (1 - real p / real (length f)) \<le> 8 / 10)) \<and>
     (\<not> sublist t f \<longrightarrow> scoreField f t n em = None) \<and>
     (\<forall>g m1 m2. length g = length f \<and>
        scoreField f t n False = Some m1 \<and> matchType m1 = Substring \<and>
        scoreField g t n False = Some m2 \<and> matchType m2 = Substring \<and>
        indexOf f t < indexOf g t \<longrightarrow> score m2 < score m1)"
    by (rule scoreField_nonempty_term[OF t])
  show "\<forall>m. scoreField f t n em = Some m \<longrightarrow>
        fieldName m = n \<and>
        ((matchType m = Exact \<and> score m = 1 \<and> f = t) \<or>
         (matchType m = Prefix \<and> score m = 9 / 10 \<and> f \<noteq> t \<and> prefix t f \<and> \<not> em) \<or>
         (matchType m = Substring \<and> 1 / 2 \<le> score m \<and> score m \<le> 8 / 10 \<and>
            \<not> prefix t f \<and> sublist t f \<and> \<not> em))"
    using scoreField_result by blast
qed

text \<open>The tiers at the term \<open>raw\<close>: the fields \<open>raw\<close>, \<open>rawhide\<close>, \<open>draw\<close>, \<open>dry\<close>.\<close>

theorem scoreField_tiers_witness:
  "''raw'' \<noteq> [] \<and>
   scoreField ''raw'' ''raw'' ''name'' True = Some \<lparr>fieldName = ''name'', matchType = Exact, score = 1\<rparr> \<and>
   (''rawhide'' \<noteq> ''raw'' \<and> prefix ''raw'' ''rawhide'') \<and>
   scoreField ''rawhide'' ''raw'' ''name'' False =
     Some \<lparr>fieldName = ''name'', matchType = Prefix, score = 9 / 10\<rparr> \<and>
   (\<not> prefix ''raw'' ''draw'' \<and> sublist ''raw'' ''draw'') \<and>
   indexOf ''draw'' ''raw'' = 1 \<and>
   scoreField ''draw'' ''raw'' ''name'' False =
     Some \<lparr>fieldName = ''name'', matchType = Substring, score = 29 / 40\<rparr> \<and>
   \<not> sublist ''raw'' ''dry'' \<and> scoreField ''dry'' ''raw'' ''name'' False = None \<and>
   indexOf ''draws'' ''raw'' < indexOf ''xdraw'' ''raw'' \<and>
   score (the (scoreField ''xdraw'' ''raw'' ''name'' False))
     < score (the (scoreField ''draws'' ''raw'' ''name'' False))"
proof -
  have ne: "''raw'' \<noteq> []" by simp
  note t = scoreField_tiers [OF ne, THEN conjunct1]
  show ?thesis
    using ne t [of "''raw''" "''name''" True] t [of "''rawhide''" "''name''" False]
      t [of "''draw''" "''name''" False] t [of "''dry''" "''name''" False]
      t [of "''draws''" "''name''" False]
    by (simp add: includes_s_sublist [symmetric] scoreField_def startsWith_def indexOf_def)
qed



lemma toLowerCase_Nil: "toLowerCase [] = []"
  by (simp add: toLowerCase_def)

lemma normalize_Nil: "normalize_s opts [] = []"
  by (simp add: normalize_s_def toLowerCase_def)

lemma scoreField_empty_term:
  "scoreField f [] n False =
     Some \<lparr>fieldName = n, matchType = (if f = [] then Exact else Prefix),
           score = (if f = [] then 1 else 9 / 10)\<rparr>"
  by (simp add: scoreField_def startsWith_def)

lemma scoreField_score_range:
  assumes "scoreField f t n em = Some m"
  shows "1 / 2 \<le> score m \<and> score m \<le> 1 \<and> fieldName m = n"
proof (cases "f = t")
  case True
  with assms show ?thesis by (auto simp: scoreField_def)
next
  case ne: False
  show ?thesis
  proof (cases "prefix t f")
    case True
    with assms ne show ?thesis
      by (auto simp: scoreField_def startsWith_def split: if_splits)
  next
    case np: False
    from assms ne np have inc: "includes_s f t" and em: "\<not> em"
      by (auto simp: scoreField_def startsWith_def split: if_splits)
    have m: "m = \<lparr>fieldName = n, matchType = Substring,
                 score = 1 / 2 + 3 / 10 * (1 - real_of_int (indexOf f t) / real (length f))\<rparr>"
      using scoreField_substring[OF ne np inc, of n] assms em by simp
    have pos: "0 < indexOf f t" by (rule indexOf_pos[OF inc np])
    have le: "indexOf f t \<le> int (length f)" using indexOf_first[OF inc] by linarith
    have gen: "\<And>x::real. 1 / 2 \<le> x \<Longrightarrow> x < 8 / 10 \<Longrightarrow> 1 / 2 \<le> x \<and> x \<le> 1"
      by simp
    show ?thesis
      using gen[OF substring_score_bounds[OF pos le]] by (simp only: m MatchedField.simps simp_thms)
  qed
qed

lemma scoreFields_closed:
  "scoreFields opts e t q =
     (let a = scoreField (normalize_s opts (name e)) t ''name'' (queryExact q);
          b = scoreField (normalize_s opts (qualifiedName e)) t ''qualifiedName'' (queryExact q);
          c = descScore opts e t
      in ((case a of Some m \<Rightarrow> [m] | None \<Rightarrow> []) @ (case b of Some m \<Rightarrow> [m] | None \<Rightarrow> []) @
          (case c of Some m \<Rightarrow> [m] | None \<Rightarrow> []),
          (case a of Some m \<Rightarrow> score m | None \<Rightarrow> 0) +
          (case b of Some m \<Rightarrow> score m * (8 / 10) | None \<Rightarrow> 0) +
          (case c of Some m \<Rightarrow> score m * (3 / 10) | None \<Rightarrow> 0)))"
  unfolding scoreFields_def Let_def
  by (simp split: option.splits)

lemma scoreField_pos: "scoreField f t n em = Some m \<Longrightarrow> 0 < score m"
  using scoreField_score_range[of f t n em m] by simp

lemma descScore_pos: "descScore opts e t = Some m \<Longrightarrow> 0 < score m"
  unfolding descScore_def by (auto split: option.splits if_splits dest: scoreField_pos)

lemma scoreFields_total_pos:
  assumes "fst (scoreFields opts e t q) \<noteq> []"
  shows "0 < snd (scoreFields opts e t q)"
proof -
  let ?a = "scoreField (normalize_s opts (name e)) t ''name'' (queryExact q)"
  let ?b = "scoreField (normalize_s opts (qualifiedName e)) t ''qualifiedName'' (queryExact q)"
  let ?c = "descScore opts e t"
  have a: "0 \<le> (case ?a of Some m \<Rightarrow> score m | None \<Rightarrow> 0)"
    by (auto split: option.splits dest: scoreField_pos intro: less_imp_le)
  have b: "0 \<le> (case ?b of Some m \<Rightarrow> score m * (8 / 10) | None \<Rightarrow> 0)"
    by (auto split: option.splits dest: scoreField_pos intro: less_imp_le)
  have c: "0 \<le> (case ?c of Some m \<Rightarrow> score m * (3 / 10) | None \<Rightarrow> 0)"
    by (auto split: option.splits dest: descScore_pos intro: less_imp_le)
  from assms have "?a \<noteq> None \<or> ?b \<noteq> None \<or> ?c \<noteq> None"
    by (auto simp: scoreFields_closed Let_def split: option.splits)
  then have "0 < (case ?a of Some m \<Rightarrow> score m | None \<Rightarrow> 0) \<or>
             0 < (case ?b of Some m \<Rightarrow> score m * (8 / 10) | None \<Rightarrow> 0) \<or>
             0 < (case ?c of Some m \<Rightarrow> score m * (3 / 10) | None \<Rightarrow> 0)"
    by (auto dest: scoreField_pos descScore_pos)
  then show ?thesis using a b c by (auto simp: scoreFields_closed Let_def)
qed

lemma scoreEntity_Some:
  assumes "scoreEntity opts e t q = Some r"
  shows "entity r = e" "relevance r = min (snd (scoreFields opts e t q)) 1"
    "matchedFields r = fst (scoreFields opts e t q)" "matchedFields r \<noteq> []"
    "relevance r \<le> 1" "0 < relevance r"
proof -
  obtain mfs tot where sf: "scoreFields opts e t q = (mfs, tot)" by (cases "scoreFields opts e t q")
  from assms sf have ne: "mfs \<noteq> []" and
    r: "r = \<lparr>entity = e, relevance = min tot 1, matchedFields = mfs,
                    highlights = (if enableHighlights opts
                                  then Some (generateHighlights opts e t mfs)
                                  else None)\<rparr>"
    by (auto simp: scoreEntity_def split: if_splits)
  show "entity r = e" "relevance r = min (snd (scoreFields opts e t q)) 1"
    "matchedFields r = fst (scoreFields opts e t q)" "matchedFields r \<noteq> []" "relevance r \<le> 1"
    using ne by (simp_all add: r sf)
  have "0 < tot" using scoreFields_total_pos[of opts e t q] ne sf by simp
  then show "0 < relevance r" by (simp add: r)
qed

lemma scoreEntity_None:
  "scoreEntity opts e t q = None \<longleftrightarrow> fst (scoreFields opts e t q) = []"
  by (cases "scoreFields opts e t q") (auto simp: scoreEntity_def)

lemma scoreAll_set:
  "r \<in> set (scoreAll opts t q es) \<Longrightarrow> \<exists>e \<in> set es. scoreEntity opts e t q = Some r"
  by (induction es) (auto split: option.splits if_splits)

lemma scoreAll_eq:
  "scoreAll opts t q es = List.map_filter (\<lambda>e. scoreEntity opts e t q) es"
  by (induction es) (auto split: option.splits dest: scoreEntity_Some(6))

lemma insertBy_set: "set (insertBy cmp x ys) = insert x (set ys)"
  by (induction ys) auto

lemma sortBy_set: "set (sortBy cmp xs) = set xs"
  by (induction xs) (auto simp: sortBy_def insertBy_set)

lemma insertBy_length: "length (insertBy cmp x ys) = Suc (length ys)"
  by (induction ys) auto

lemma sortBy_length: "length (sortBy cmp xs) = length xs"
  by (induction xs) (auto simp: sortBy_def insertBy_length)

lemma slice0_set: "set (slice0 xs n) \<subseteq> set xs"
  by (auto simp: slice0_def Let_def dest: in_set_takeD)

lemma slice0_prefix: "prefix (slice0 xs n) xs"
  by (simp add: slice0_def Let_def take_is_prefix)

lemma slice0_length: "0 \<le> n \<Longrightarrow> int (length (slice0 xs n)) \<le> n"
  by (auto simp: slice0_def Let_def)

lemma slice0_length_eq: "0 \<le> n \<Longrightarrow> length (slice0 xs n) = min (nat n) (length xs)"
  by (auto simp: slice0_def Let_def)

lemma searchTerm_normalize:
  "scoredResults eng q =
     scoreAll (options eng) (normalize_s (options eng) (term_q q)) q (candidateEntities eng q)"
  by (simp add: scoredResults_def normalize_s_def)

lemma search_results:
  "fst (search eng q) =
     slice0 (sortBy (\<lambda>a b. relevance b - relevance a) (scoredResults eng q))
       (resultLimit (options eng) q)"
  by (simp add: search_def Let_def)

lemma search_result_scored:
  assumes "r \<in> set (fst (search eng q))"
  shows "\<exists>e \<in> set (candidateEntities eng q).
           scoreEntity (options eng) e (normalize_s (options eng) (term_q q)) q = Some r"
proof -
  from assms have "r \<in> set (scoredResults eng q)"
    using slice0_set sortBy_set unfolding search_results by fastforce
  then show ?thesis unfolding searchTerm_normalize by (rule scoreAll_set)
qed



text \<open>
  C6. Every result of a Simple-engine search has relevance at most 1: it is the minimum of
  1 and the weighted sum of the matched fields' scores, whatever that sum is. Every result
  has a matched field, and an entity none of whose fields matches the normalised term is
  scored \<open>null\<close> and is not among the results.
\<close>

theorem search_relevance_clamped:
  "(\<forall>r \<in> set (fst (search eng q)).
      relevance r \<le> 1 \<and> matchedFields r \<noteq> [] \<and>
      relevance r =
        min (snd (scoreFields (options eng) (entity r) (normalize_s (options eng) (term_q q)) q)) 1) \<and>
   (\<forall>e. fst (scoreFields (options eng) e (normalize_s (options eng) (term_q q)) q) = [] \<longrightarrow>
        scoreEntity (options eng) e (normalize_s (options eng) (term_q q)) q = None \<and>
        e \<notin> entity ` set (fst (search eng q)))"
proof (intro conjI ballI allI impI)
  fix r assume "r \<in> set (fst (search eng q))"
  then obtain e where
    "scoreEntity (options eng) e (normalize_s (options eng) (term_q q)) q = Some r"
    using search_result_scored by blast
  note s = scoreEntity_Some[OF this]
  show "relevance r \<le> 1" by (rule s(5))
  show "matchedFields r \<noteq> []" by (rule s(4))
  show "relevance r =
        min (snd (scoreFields (options eng) (entity r) (normalize_s (options eng) (term_q q)) q)) 1"
    using s(1,2) by simp
next
  fix e
  assume z: "fst (scoreFields (options eng) e (normalize_s (options eng) (term_q q)) q) = []"
  then show "scoreEntity (options eng) e (normalize_s (options eng) (term_q q)) q = None"
    by (simp add: scoreEntity_None)
  show "e \<notin> entity ` set (fst (search eng q))"
  proof
    assume "e \<in> entity ` set (fst (search eng q))"
    then obtain r where r: "r \<in> set (fst (search eng q))" and er: "entity r = e" by auto
    from search_result_scored[OF r] obtain e' where
      se: "scoreEntity (options eng) e' (normalize_s (options eng) (term_q q)) q = Some r"
      by blast
    have "e' = e" using scoreEntity_Some(1)[OF se] er by simp
    with scoreEntity_Some(3,4)[OF se] z show False by simp
  qed
qed


lemma widget_search_value: "map (\<lambda>r. (name (entity r), relevance r))
     (fst (search (mkEngine 50 [mkEntity ''c1'' ''Widget'' ''Widget'' KClass None,
                                 mkEntity ''f1'' ''helper'' ''ns::helper'' KFunction None])
        (mkQuery ''widget'' None None))) = [(''Widget'', 1)]"
  by code_simp

lemma widget_total_value: "snd (scoreFields (mkOptions 50) (mkEntity ''c1'' ''Widget'' ''Widget'' KClass None) ''widget''
          (mkQuery ''widget'' None None)) = 9 / 5"
  by code_simp

lemma helper_fields_value: "fst (scoreFields (mkOptions 50) (mkEntity ''f1'' ''helper'' ''ns::helper'' KFunction None)
          ''widget'' (mkQuery ''widget'' None None)) = []"
  by code_simp


text \<open>
  \<open>Widget\<close> matches the term in name and qualified name (sum 1 + 0.8, relevance 1);
  \<open>helper\<close> has no matching field and is left out.
\<close>

theorem search_relevance_clamped_witness:
  "map (\<lambda>r. (name (entity r), relevance r))
     (fst (search (mkEngine 50 [mkEntity ''c1'' ''Widget'' ''Widget'' KClass None,
                                 mkEntity ''f1'' ''helper'' ''ns::helper'' KFunction None])
        (mkQuery ''widget'' None None))) = [(''Widget'', 1)] \<and>
   snd (scoreFields (mkOptions 50) (mkEntity ''c1'' ''Widget'' ''Widget'' KClass None) ''widget''
          (mkQuery ''widget'' None None)) = 9 / 5 \<and>
   fst (scoreFields (mkOptions 50) (mkEntity ''f1'' ''helper'' ''ns::helper'' KFunction None)
          ''widget'' (mkQuery ''widget'' None None)) = [] \<and>
   mkEntity ''f1'' ''helper'' ''ns::helper'' KFunction None \<notin>
     entity ` set (fst (search (mkEngine 50 [mkEntity ''c1'' ''Widget'' ''Widget'' KClass None,
                                 mkEntity ''f1'' ''helper'' ''ns::helper'' KFunction None])
        (mkQuery ''widget'' None None)))"
proof -
  have n: "normalize_s (mkOptions 50) ''widget'' = ''widget''" by code_simp
  note t = search_relevance_clamped
    [of "mkEngine 50 [mkEntity ''c1'' ''Widget'' ''Widget'' KClass None,
                      mkEntity ''f1'' ''helper'' ''ns::helper'' KFunction None]"
        "mkQuery ''widget'' None None"]
  from t widget_search_value widget_total_value helper_fields_value show ?thesis by (simp add: n)
qed

subsection \<open>The empty term\<close>

lemma normalize_s_Nil_iff: "normalize_s opts s = [] \<longleftrightarrow> s = []"
  by (simp add: normalize_s_def toLowerCase_def)

lemma descScore_empty_term:
  "descScore opts e [] =
     (if includeDescriptions opts \<and> briefDescription e \<noteq> None \<and> briefDescription e \<noteq> Some []
      then Some \<lparr>fieldName = ''briefDescription'', matchType = Prefix, score = 9 / 10\<rparr>
      else None)"
  by (auto simp: descScore_def scoreField_empty_term normalize_s_Nil_iff split: option.splits)

lemma insertBy_equal: "\<forall>y \<in> set ys. cmp x y \<le> 0 \<Longrightarrow> insertBy cmp x ys = x # ys"
  by (cases ys) auto

lemma sortBy_equal_keys:
  "\<forall>x \<in> set xs. key x = (c::real) \<Longrightarrow> sortBy (\<lambda>a b. key b - key a) xs = xs"
proof (induction xs)
  case Nil then show ?case by (simp add: sortBy_def)
next
  case (Cons x xs)
  then have "sortBy (\<lambda>a b. key b - key a) xs = xs" by simp
  then have "sortBy (\<lambda>a b. key b - key a) (x # xs) = insertBy (\<lambda>a b. key b - key a) x xs"
    by (simp add: sortBy_def)
  also have "\<dots> = x # xs" using Cons.prems by (intro insertBy_equal) simp
  finally show ?case .
qed

lemma slice0_map: "map f (slice0 xs n) = slice0 (map f xs) n"
  by (simp add: slice0_def Let_def take_map)

lemma scoreAll_all_some:
  assumes "\<forall>e \<in> set es. \<exists>r. scoreEntity opts e t q = Some r"
  shows "map entity (scoreAll opts t q es) = es"
  using assms
proof (induction es)
  case Nil then show ?case by simp
next
  case (Cons e es)
  then obtain r where r: "scoreEntity opts e t q = Some r" by auto
  from scoreEntity_Some(1,6)[OF r] r Cons show ?case by simp
qed

text \<open>
  C10. With exact matching off and an empty query term, the Simple engine matches every
  candidate: the name and the qualified name of every entity match (exact tier, score 1, when
  the field is empty; prefix tier, score 9/10, otherwise), and so does the description when
  it is scored; the sum of the weighted scores is at least 9/10 and the relevance is 1. No
  candidate is dropped by the scoring, and the results are the candidates, in snapshot order,
  cut at the result limit.
\<close>

theorem empty_term_matches_all:
  assumes tq: "term_q q = []" and ex: "\<not> queryExact q"
  shows
    "(\<forall>e. \<exists>r. scoreEntity (options eng) e (normalize_s (options eng) (term_q q)) q = Some r \<and>
          9 / 10 \<le> snd (scoreFields (options eng) e (normalize_s (options eng) (term_q q)) q) \<and>
          relevance r = 1 \<and>
          map fieldName (matchedFields r) =
            ''name'' # ''qualifiedName'' #
            (if includeDescriptions (options eng) \<and> briefDescription e \<noteq> None \<and>
                briefDescription e \<noteq> Some []
             then [''briefDescription''] else []) \<and>
          (\<forall>m \<in> set (matchedFields r).
             (matchType m = Exact \<and> score m = 1) \<or> (matchType m = Prefix \<and> score m = 9 / 10))) \<and>
     map entity (scoredResults eng q) = candidateEntities eng q \<and>
     map entity (fst (search eng q)) =
       slice0 (candidateEntities eng q) (resultLimit (options eng) q)"
proof -
  let ?o = "options eng"
  have nt: "normalize_s ?o (term_q q) = []" by (simp add: tq normalize_s_def toLowerCase_def)
  have ex': "queryExact q = False" using ex by simp
  have A: "\<exists>r. scoreEntity ?o e [] q = Some r \<and>
          9 / 10 \<le> snd (scoreFields ?o e [] q) \<and>
          relevance r = 1 \<and>
          map fieldName (matchedFields r) =
            ''name'' # ''qualifiedName'' #
            (if includeDescriptions ?o \<and> briefDescription e \<noteq> None \<and>
                briefDescription e \<noteq> Some []
             then [''briefDescription''] else []) \<and>
          (\<forall>m \<in> set (matchedFields r).
             (matchType m = Exact \<and> score m = 1) \<or> (matchType m = Prefix \<and> score m = 9 / 10))" for e
    by (simp add: scoreEntity_def scoreFields_closed ex' scoreField_empty_term
          descScore_empty_term Let_def)
  have all: "\<forall>e \<in> set (candidateEntities eng q). \<exists>r. scoreEntity ?o e [] q = Some r"
    using A by blast
  have B: "map entity (scoredResults eng q) = candidateEntities eng q"
    unfolding searchTerm_normalize nt by (rule scoreAll_all_some[OF all])
  have rel1: "\<forall>r \<in> set (scoredResults eng q). relevance r = 1"
  proof
    fix r assume "r \<in> set (scoredResults eng q)"
    then obtain e where "scoreEntity ?o e [] q = Some r"
      unfolding searchTerm_normalize nt using scoreAll_set by blast
    with A[of e] show "relevance r = 1" by auto
  qed
  have C: "map entity (fst (search eng q)) =
       slice0 (candidateEntities eng q) (resultLimit ?o q)"
    unfolding search_results sortBy_equal_keys[OF rel1] slice0_map B ..
  show ?thesis unfolding nt using A B C by blast
qed


text \<open>Two entities, one with an empty name, searched with the empty term.\<close>

theorem empty_term_matches_all_witness:
  "term_q (mkQuery [] None None) = [] \<and> \<not> queryExact (mkQuery [] None None) \<and>
   map (\<lambda>r. (name (entity r), relevance r, map matchType (matchedFields r)))
     (fst (search (mkEngine 50 [mkEntity ''c1'' ''Widget'' ''ns::Widget'' KClass None,
                                 mkEntity ''f1'' [] ''ns::helper'' KFunction (Some ''helps'')])
        (mkQuery [] None None))) =
     [(''Widget'', 1, [Prefix, Prefix]), ([], 1, [Exact, Prefix, Prefix])]"
proof -
  have h1: "term_q (mkQuery [] None None) = []" by simp
  have h2: "\<not> queryExact (mkQuery [] None None)" by (simp add: queryExact_def)
  note t = empty_term_matches_all
    [OF h1 h2, of "mkEngine 50 [mkEntity ''c1'' ''Widget'' ''ns::Widget'' KClass None,
                                 mkEntity ''f1'' [] ''ns::helper'' KFunction (Some ''helps'')]"]
  have e: "map (\<lambda>r. (name (entity r), relevance r, map matchType (matchedFields r)))
     (fst (search (mkEngine 50 [mkEntity ''c1'' ''Widget'' ''ns::Widget'' KClass None,
                                 mkEntity ''f1'' [] ''ns::helper'' KFunction (Some ''helps'')])
        (mkQuery [] None None))) =
     [(''Widget'', 1, [Prefix, Prefix]), ([], 1, [Exact, Prefix, Prefix])]"
    by code_simp
  from t h1 h2 e show ?thesis by simp
qed

subsection \<open>Exact matching\<close>

text \<open>
  C5 as stated fails for the description: the source passes \<open>false\<close> for the exact-match
  flag when it scores \<open>briefDescription\<close> ("Never exact match descriptions"). With exact
  matching requested, a description that only starts with the term still matches, in the
  prefix tier, and the entity is returned.
\<close>

theorem exact_only_description_counterexample:
  "queryExact (mkQuery ''draws'' (Some True) None) \<and>
   normalize_s (mkOptions 50) ''Draws a widget'' \<noteq> ''draws'' \<and>
   map (\<lambda>r. (name (entity r), matchedFields r))
     (fst (search (mkEngine 50 [mkEntity ''c1'' ''Widget'' ''ns::Widget'' KClass
                                  (Some ''Draws a widget'')])
        (mkQuery ''draws'' (Some True) None))) =
     [(''Widget'', [\<lparr>fieldName = ''briefDescription'', matchType = Prefix, score = 9 / 10\<rparr>])]"
  by code_simp

lemma scoreField_exact_only:
  "scoreField f t n True = (if f = t then Some \<lparr>fieldName = n, matchType = Exact, score = 1\<rparr> else None)"
  by (simp add: scoreField_def)

lemma descScore_fieldName: "descScore opts e t = Some m \<Longrightarrow> fieldName m = ''briefDescription''"
  unfolding descScore_def
  by (auto split: option.splits if_splits dest: scoreField_score_range)

text \<open>
  C5, amended. When the query requests exact matching, \<open>name\<close> and \<open>qualifiedName\<close> are
  scored by the exact tier only: a matched field other than the description is an exact
  match of score 1, and a name or qualified name that differs from the normalised term is
  not among the matched fields. The description is scored with exact matching off, whatever
  the query requests.
\<close>

theorem exact_only_name_fields:
  assumes ex: "queryExact q"
  shows
    "(\<forall>m \<in> set (fst (scoreFields opts e t q)).
        fieldName m \<noteq> ''briefDescription'' \<longrightarrow> matchType m = Exact \<and> score m = 1) \<and>
     (normalize_s opts (name e) \<noteq> t \<longrightarrow>
        ''name'' \<notin> fieldName ` set (fst (scoreFields opts e t q))) \<and>
     (normalize_s opts (qualifiedName e) \<noteq> t \<longrightarrow>
        ''qualifiedName'' \<notin> fieldName ` set (fst (scoreFields opts e t q))) \<and>
     filter (\<lambda>m. fieldName m = ''briefDescription'') (fst (scoreFields opts e t q)) =
       (case briefDescription e of
          Some d \<Rightarrow>
            if includeDescriptions opts \<and> d \<noteq> [] then
              (case scoreField (normalize_s opts d) t ''briefDescription'' False of
                 Some m \<Rightarrow> [m] | None \<Rightarrow> [])
            else []
        | None \<Rightarrow> [])"
proof -
  have ex': "queryExact q = True" using ex by simp
  have d: "Some m = descScore opts e t \<Longrightarrow> fieldName m = ''briefDescription''" for m
    using descScore_fieldName[of opts e t m] by simp
  have d': "descScore opts e t = Some m \<Longrightarrow> fieldName m = ''briefDescription''" for m
    by (rule descScore_fieldName)
  have f: "filter (\<lambda>m. fieldName m = ''briefDescription'') (fst (scoreFields opts e t q)) =
       (case descScore opts e t of Some m \<Rightarrow> [m] | None \<Rightarrow> [])"
    by (auto simp: scoreFields_closed ex' scoreField_exact_only Let_def
        split: option.splits dest: d d')
  have g: "(case descScore opts e t of Some m \<Rightarrow> [m] | None \<Rightarrow> []) =
       (case briefDescription e of
          Some d \<Rightarrow>
            if includeDescriptions opts \<and> d \<noteq> [] then
              (case scoreField (normalize_s opts d) t ''briefDescription'' False of
                 Some m \<Rightarrow> [m] | None \<Rightarrow> [])
            else []
        | None \<Rightarrow> [])"
    by (simp add: descScore_def split: option.splits)
  have a: "\<forall>m \<in> set (fst (scoreFields opts e t q)).
        fieldName m \<noteq> ''briefDescription'' \<longrightarrow> matchType m = Exact \<and> score m = 1"
    by (auto simp: scoreFields_closed ex' scoreField_exact_only Let_def
        split: option.splits if_splits dest: d d')
  have b: "normalize_s opts (name e) \<noteq> t \<longrightarrow>
        ''name'' \<notin> fieldName ` set (fst (scoreFields opts e t q))"
    by (auto simp: scoreFields_closed ex' scoreField_exact_only Let_def
        split: option.splits if_splits dest: d d')
  have c: "normalize_s opts (qualifiedName e) \<noteq> t \<longrightarrow>
        ''qualifiedName'' \<notin> fieldName ` set (fst (scoreFields opts e t q))"
    by (auto simp: scoreFields_closed ex' scoreField_exact_only Let_def
        split: option.splits if_splits dest: d d')
  show ?thesis using a b c f g by simp
qed

text \<open>
  Exact matching of \<open>widget\<close>: the name matches exactly, the qualified name \<open>ns::Widget\<close>
  does not match, the description matches as a substring.
\<close>

theorem exact_only_name_fields_witness:
  "queryExact (mkQuery ''widget'' (Some True) None) \<and>
   normalize_s (mkOptions 50) ''ns::Widget'' \<noteq> ''widget'' \<and>
   fst (scoreFields (mkOptions 50)
          (mkEntity ''c1'' ''Widget'' ''ns::Widget'' KClass (Some ''A widget to draw''))
          ''widget'' (mkQuery ''widget'' (Some True) None)) =
     [\<lparr>fieldName = ''name'', matchType = Exact, score = 1\<rparr>,
      \<lparr>fieldName = ''briefDescription'', matchType = Substring, score = 1 / 2 + 3 / 10 * (1 - 2 / 16)\<rparr>] \<and>
   ''qualifiedName'' \<notin> fieldName ` set (fst (scoreFields (mkOptions 50)
          (mkEntity ''c1'' ''Widget'' ''ns::Widget'' KClass (Some ''A widget to draw''))
          ''widget'' (mkQuery ''widget'' (Some True) None)))"
proof -
  have h: "queryExact (mkQuery ''widget'' (Some True) None)" by (simp add: queryExact_def)
  have n: "normalize_s (mkOptions 50) ''ns::Widget'' \<noteq> ''widget''" by code_simp
  have e: "fst (scoreFields (mkOptions 50)
          (mkEntity ''c1'' ''Widget'' ''ns::Widget'' KClass (Some ''A widget to draw''))
          ''widget'' (mkQuery ''widget'' (Some True) None)) =
     [\<lparr>fieldName = ''name'', matchType = Exact, score = 1\<rparr>,
      \<lparr>fieldName = ''briefDescription'', matchType = Substring, score = 1 / 2 + 3 / 10 * (1 - 2 / 16)\<rparr>]"
    by code_simp
  note t = exact_only_name_fields [OF h, of "mkOptions 50"
          "mkEntity ''c1'' ''Widget'' ''ns::Widget'' KClass (Some ''A widget to draw'')" "''widget''"]
  from t n have c: "''qualifiedName'' \<notin> fieldName ` set (fst (scoreFields (mkOptions 50)
          (mkEntity ''c1'' ''Widget'' ''ns::Widget'' KClass (Some ''A widget to draw''))
          ''widget'' (mkQuery ''widget'' (Some True) None)))"
    by simp
  show ?thesis by (intro conjI) (rule h n e c)+
qed


subsection \<open>The order of the results\<close>

lemma insertBy_filter:
  "filter (\<lambda>r. key r = (v::real)) (insertBy (\<lambda>a b. key b - key a) x ys) =
     (if key x = v then x # filter (\<lambda>r. key r = v) ys else filter (\<lambda>r. key r = v) ys)"
  by (induction ys) auto

lemma sortBy_stable:
  "filter (\<lambda>r. key r = (v::real)) (sortBy (\<lambda>a b. key b - key a) xs) = filter (\<lambda>r. key r = v) xs"
proof (induction xs)
  case Nil then show ?case by (simp add: sortBy_def)
next
  case (Cons x xs)
  have "sortBy (\<lambda>a b. key b - key a) (x # xs) =
          insertBy (\<lambda>a b. key b - key a) x (sortBy (\<lambda>a b. key b - key a) xs)"
    by (simp add: sortBy_def)
  then show ?case using Cons.IH by (simp add: insertBy_filter)
qed

lemma insertBy_sorted:
  "sorted_wrt (\<lambda>a b. key b \<le> (key a :: real)) ys \<Longrightarrow>
   sorted_wrt (\<lambda>a b. key b \<le> key a) (insertBy (\<lambda>a b. key b - key a) x ys)"
  by (induction ys) (auto simp: insertBy_set)

lemma sortBy_sorted:
  "sorted_wrt (\<lambda>a b. key b \<le> (key a :: real)) (sortBy (\<lambda>a b. key b - key a) xs)"
proof (induction xs)
  case Nil then show ?case by (simp add: sortBy_def)
next
  case (Cons x xs)
  have "sortBy (\<lambda>a b. key b - key a) (x # xs) =
          insertBy (\<lambda>a b. key b - key a) x (sortBy (\<lambda>a b. key b - key a) xs)"
    by (simp add: sortBy_def)
  then show ?case using insertBy_sorted[OF Cons.IH] by simp
qed

lemma slice0_sorted: "sorted_wrt R xs \<Longrightarrow> sorted_wrt R (slice0 xs n)"
  by (simp add: slice0_def Let_def)

lemma subseq_pair_nth:
  assumes "i < j" "j < length xs"
  shows "subseq [xs ! i, xs ! j] xs"
proof -
  have i: "i < length xs" using assms by simp
  have xs: "xs = take i xs @ xs ! i # drop (Suc i) xs" using i by (rule id_take_nth_drop)
  let ?d = "drop (Suc i) xs"
  have jd: "j - Suc i < length ?d" using assms by simp
  have dj: "?d ! (j - Suc i) = xs ! j" using assms by simp
  have d: "?d = take (j - Suc i) ?d @ xs ! j # drop (Suc (j - Suc i)) ?d"
    using id_take_nth_drop[OF jd] dj by simp
  have "subseq [xs ! j] ?d" by (subst d) (simp add: subseq_drop_many)
  then have "subseq [xs ! i, xs ! j] (xs ! i # ?d)" by simp
  then have "subseq [xs ! i, xs ! j] (take i xs @ xs ! i # ?d)" by (rule subseq_drop_many)
  then show ?thesis using xs by simp
qed

lemma subseq_pair_index:
  assumes "subseq [a, b] ys"
  shows "\<exists>i j. i < j \<and> j < length ys \<and> ys ! i = a \<and> ys ! j = b"
proof -
  from list_emb_ConsD[OF assms] obtain us v vs where
    ys: "ys = us @ v # vs" and v: "a = v" and r: "subseq [b] vs" by blast
  from list_emb_ConsD[OF r] obtain us' v' vs' where
    vs: "vs = us' @ v' # vs'" and v': "b = v'" by blast
  have "ys ! length us = a" by (simp add: ys v)
  moreover have "ys ! (length us + Suc (length us')) = b"
    by (simp add: ys vs v' nth_append)
  moreover have "length us + Suc (length us') < length ys" by (simp add: ys vs)
  ultimately show ?thesis by (intro exI[of _ "length us"] exI[of _ "length us + Suc (length us')"]) simp
qed

lemma scoreAll_subseq: "subseq (map entity (scoreAll opts t q es)) es"
proof (induction es)
  case Nil then show ?case by simp
next
  case (Cons e es)
  show ?case
  proof (cases "scoreEntity opts e t q")
    case None then show ?thesis using Cons by (simp add: list_emb_Cons)
  next
    case (Some r)
    from scoreEntity_Some(1)[OF Some] Some Cons show ?thesis by (simp add: list_emb_Cons)
  qed
qed

lemma candidateEntities_subseq: "subseq (candidateEntities eng q) (entities eng)"
  by (simp add: candidateEntities_def split: option.splits)

lemma scoredResults_subseq: "subseq (map entity (scoredResults eng q)) (entities eng)"
  unfolding searchTerm_normalize
  using scoreAll_subseq candidateEntities_subseq by (rule subseq_order.trans)

lemma search_filter_prefix:
  "prefix (filter (\<lambda>r. relevance r = v) (fst (search eng q)))
          (filter (\<lambda>r. relevance r = v) (scoredResults eng q))"
proof -
  have "prefix (filter (\<lambda>r. relevance r = v) (fst (search eng q)))
          (filter (\<lambda>r. relevance r = v) (sortBy (\<lambda>a b. relevance b - relevance a) (scoredResults eng q)))"
    unfolding search_results by (rule filter_mono_prefix[OF slice0_prefix])
  then show ?thesis by (simp only: sortBy_stable)
qed

text \<open>
  C2. The results of a Simple-engine search are in descending order of relevance, and
  results of equal relevance are in the order of the loaded snapshot: the results of
  relevance \<open>v\<close> are a prefix of the scored entities of relevance \<open>v\<close> in scoring order,
  the scored entities are a subsequence of the snapshot, and so two results of equal
  relevance at positions \<open>i < j\<close> are the entities at two positions \<open>i' < j'\<close> of the
  snapshot.
\<close>

theorem search_sort_stable:
  "prefix (filter (\<lambda>r. relevance r = v) (fst (search eng q)))
          (filter (\<lambda>r. relevance r = v) (scoredResults eng q)) \<and>
   subseq (map entity (scoredResults eng q)) (entities eng) \<and>
   (\<forall>i j. i < j \<and> j < length (fst (search eng q)) \<longrightarrow>
      relevance (fst (search eng q) ! j) \<le> relevance (fst (search eng q) ! i) \<and>
      (relevance (fst (search eng q) ! i) = relevance (fst (search eng q) ! j) \<longrightarrow>
         (\<exists>i' j'. i' < j' \<and> j' < length (entities eng) \<and>
            entities eng ! i' = entity (fst (search eng q) ! i) \<and>
            entities eng ! j' = entity (fst (search eng q) ! j))))"
proof (intro conjI allI impI)
  show "prefix (filter (\<lambda>r. relevance r = v) (fst (search eng q)))
          (filter (\<lambda>r. relevance r = v) (scoredResults eng q))"
    by (rule search_filter_prefix)
  show "subseq (map entity (scoredResults eng q)) (entities eng)"
    by (rule scoredResults_subseq)
next
  fix i j assume ij: "i < j \<and> j < length (fst (search eng q))"
  have "sorted_wrt (\<lambda>a b. relevance b \<le> relevance a) (fst (search eng q))"
    unfolding search_results by (rule slice0_sorted[OF sortBy_sorted])
  then show "relevance (fst (search eng q) ! j) \<le> relevance (fst (search eng q) ! i)"
    using ij by (simp add: sorted_wrt_iff_nth_less)
next
  fix i j
  let ?res = "fst (search eng q)"
  assume ij: "i < j \<and> j < length ?res" and eq: "relevance (?res ! i) = relevance (?res ! j)"
  let ?P = "\<lambda>r. relevance r = relevance (?res ! i)"
  have "subseq [?res ! i, ?res ! j] ?res" using ij by (intro subseq_pair_nth) simp_all
  then have "subseq (filter ?P [?res ! i, ?res ! j]) (filter ?P ?res)" by (rule subseq_filter)
  then have 1: "subseq [?res ! i, ?res ! j] (filter ?P ?res)" using eq by simp
  have 2: "subseq (filter ?P ?res) (filter ?P (scoredResults eng q))"
    using search_filter_prefix by (rule prefix_imp_subseq)
  have 3: "subseq (filter ?P (scoredResults eng q)) (scoredResults eng q)" by simp
  have "subseq [?res ! i, ?res ! j] (scoredResults eng q)"
    using 1 2 3 by (meson subseq_order.trans)
  then have "subseq (map entity [?res ! i, ?res ! j]) (map entity (scoredResults eng q))"
    by (rule subseq_map)
  then have "subseq [entity (?res ! i), entity (?res ! j)] (map entity (scoredResults eng q))"
    by simp
  then have "subseq [entity (?res ! i), entity (?res ! j)] (entities eng)"
    using scoredResults_subseq[of eng q] by (rule subseq_order.trans)
  then show "\<exists>i' j'. i' < j' \<and> j' < length (entities eng) \<and>
            entities eng ! i' = entity (?res ! i) \<and> entities eng ! j' = entity (?res ! j)"
    by (rule subseq_pair_index)
qed


text \<open>
  \<open>xab\<close> and \<open>yab\<close> both score 7/10 for the term \<open>ab\<close> and stay in snapshot order behind
  the exact match \<open>ab\<close>, which the snapshot holds between them.
\<close>

theorem search_sort_stable_witness:
  "map (\<lambda>r. (name (entity r), relevance r))
     (fst (search (mkEngine 50 [mkEntity ''e1'' ''xab'' ''x'' KClass None,
                                 mkEntity ''e2'' ''ab'' ''ab'' KClass None,
                                 mkEntity ''e3'' ''yab'' ''y'' KFunction None])
        (mkQuery ''ab'' None None))) = [(''ab'', 1), (''xab'', 7 / 10), (''yab'', 7 / 10)] \<and>
   (\<exists>i' j'. i' < j' \<and> j' < 3 \<and>
      name ([mkEntity ''e1'' ''xab'' ''x'' KClass None,
       mkEntity ''e2'' ''ab'' ''ab'' KClass None,
       mkEntity ''e3'' ''yab'' ''y'' KFunction None] ! i') = ''xab'' \<and>
      name ([mkEntity ''e1'' ''xab'' ''x'' KClass None,
       mkEntity ''e2'' ''ab'' ''ab'' KClass None,
       mkEntity ''e3'' ''yab'' ''y'' KFunction None] ! j') = ''yab'')"
proof -
  let ?es = "[mkEntity ''e1'' ''xab'' ''x'' KClass None,
              mkEntity ''e2'' ''ab'' ''ab'' KClass None,
              mkEntity ''e3'' ''yab'' ''y'' KFunction None]"
  let ?eng = "mkEngine 50 ?es"
  let ?q = "mkQuery ''ab'' None None"
  let ?res = "fst (search ?eng ?q)"
  have e: "map (\<lambda>r. (name (entity r), relevance r)) ?res =
             [(''ab'', 1), (''xab'', 7 / 10), (''yab'', 7 / 10)]"
    by code_simp
  have len: "length ?res = 3" using arg_cong[OF e, of length] by simp
  have "map (\<lambda>r. (name (entity r), relevance r)) ?res ! 1 = (''xab'', 7 / 10)"
    by (simp only: e) simp
  then have r1: "name (entity (?res ! 1)) = ''xab''" "relevance (?res ! 1) = 7 / 10"
    using len by simp_all
  have "map (\<lambda>r. (name (entity r), relevance r)) ?res ! 2 = (''yab'', 7 / 10)"
    by (simp only: e) simp
  then have r2: "name (entity (?res ! 2)) = ''yab''" "relevance (?res ! 2) = 7 / 10"
    using len by (simp_all)
  have h: "(1::nat) < 2 \<and> 2 < length ?res" using len by simp
  have eq: "relevance (?res ! 1) = relevance (?res ! 2)" using r1 r2 by simp
  from search_sort_stable[of _ ?eng ?q] h eq
  have "\<exists>i' j'. i' < j' \<and> j' < length (entities ?eng) \<and>
            entities ?eng ! i' = entity (?res ! 1) \<and> entities ?eng ! j' = entity (?res ! 2)"
    by blast
  then obtain i' j' where ij: "i' < j'" "j' < length (entities ?eng)"
    "entities ?eng ! i' = entity (?res ! 1)" "entities ?eng ! j' = entity (?res ! 2)" by blast
  have "i' < j' \<and> j' < 3 \<and> name (?es ! i') = ''xab'' \<and> name (?es ! j') = ''yab''"
    using ij r1(1) r2(1) by simp
  then show ?thesis using e by blast
qed


subsection \<open>The result limit\<close>

text \<open>
  C3 as stated fails: a per-query limit replaces the configured maximum, it is not combined
  with it. With a configured maximum of 1 and a per-query limit of 2, two matching entities
  are both returned.
\<close>

theorem result_limit_min_counterexample:
  "\<not> int (length (fst (search (mkEngine 1 [mkEntity ''e1'' ''ab'' ''ab'' KClass None,
                                            mkEntity ''e2'' ''abc'' ''abc'' KClass None])
                        (mkQuery ''ab'' None (Some 2)))))
       \<le> min 2 (maxResults (mkOptions 1))"
  by code_simp

lemma search_fuzzy_length:
  assumes "search_fuzzy fs eng q = Inr (rs, eng')" and "0 \<le> resultLimit (options eng) q"
  shows "int (length rs) \<le> resultLimit (options eng) q"
proof -
  from assms(1) obtain xs where "rs = slice0 xs (resultLimit (options eng) q)"
    by (auto simp: search_fuzzy_def Let_def split: option.splits)
  then show ?thesis using slice0_length[OF assms(2)] by simp
qed

text \<open>
  C3, amended. Both engines cut the results at one limit: the per-query \<open>maxResults\<close>
  when the query gives one other than 0, and the configured \<open>maxResults\<close> otherwise. When
  that limit is not negative, the number of results is at most the limit.
\<close>

theorem result_count_limit:
  "(maxResults_q q = Some n \<and> n \<noteq> 0 \<longrightarrow> resultLimit opts q = n) \<and>
   (maxResults_q q = None \<or> maxResults_q q = Some 0 \<longrightarrow> resultLimit opts q = maxResults opts) \<and>
   (0 \<le> resultLimit (options eng) q \<longrightarrow>
      int (length (fst (search eng q))) \<le> resultLimit (options eng) q) \<and>
   (\<forall>rs feng'. search_fuzzy fuseSearch feng q = Inr (rs, feng') \<and>
      0 \<le> resultLimit (options feng) q \<longrightarrow>
      int (length rs) \<le> resultLimit (options feng) q)"
proof (intro conjI impI allI)
  show "maxResults_q q = Some n \<and> n \<noteq> 0 \<Longrightarrow> resultLimit opts q = n"
    by (simp add: resultLimit_def)
  show "maxResults_q q = None \<or> maxResults_q q = Some 0 \<Longrightarrow> resultLimit opts q = maxResults opts"
    by (auto simp: resultLimit_def)
  show "0 \<le> resultLimit (options eng) q \<Longrightarrow>
      int (length (fst (search eng q))) \<le> resultLimit (options eng) q"
    unfolding search_results by (rule slice0_length)
  show "\<And>rs feng'. search_fuzzy fuseSearch feng q = Inr (rs, feng') \<and>
      0 \<le> resultLimit (options feng) q \<Longrightarrow> int (length rs) \<le> resultLimit (options feng) q"
    using search_fuzzy_length by blast
qed

text \<open>
  Three matching entities, configured maximum 1, per-query limit 2: both engines return 2
  results. The Fuzzy engine runs on an index that reports every item.
\<close>

theorem result_count_limit_witness:
  "resultLimit (mkOptions 1) (mkQuery ''ab'' None (Some 2)) = 2 \<and>
   resultLimit (mkOptions 1) (mkQuery ''ab'' None (Some 0)) = 1 \<and>
   resultLimit (mkOptions 1) (mkQuery ''ab'' None None) = 1 \<and>
   length (fst (search (mkEngine 1 [mkEntity ''e1'' ''ab'' ''ab'' KClass None,
                                    mkEntity ''e2'' ''abc'' ''abc'' KClass None,
                                    mkEntity ''e3'' ''abd'' ''abd'' KClass None])
                        (mkQuery ''ab'' None (Some 2)))) = 2 \<and>
   (\<exists>rs feng'. search_fuzzy allItems
        (mkFuzzy 1 [mkEntity ''e1'' ''ab'' ''ab'' KClass None,
                    mkEntity ''e2'' ''abc'' ''abc'' KClass None,
                    mkEntity ''e3'' ''abd'' ''abd'' KClass None])
        (mkQuery ''ab'' None (Some 2)) = Inr (rs, feng') \<and> length rs = 2)"
proof -
  let ?es = "[mkEntity ''e1'' ''ab'' ''ab'' KClass None,
              mkEntity ''e2'' ''abc'' ''abc'' KClass None,
              mkEntity ''e3'' ''abd'' ''abd'' KClass None]"
  let ?q = "mkQuery ''ab'' None (Some 2)"
  note t1 = result_count_limit[of ?q 2 "mkOptions 1" "mkEngine 1 ?es" allItems "mkFuzzy 1 ?es"]
  note t2 = result_count_limit[of "mkQuery ''ab'' None (Some 0)" 0 "mkOptions 1" "mkEngine 1 ?es"
      allItems "mkFuzzy 1 ?es"]
  note t3 = result_count_limit[of "mkQuery ''ab'' None None" 0 "mkOptions 1" "mkEngine 1 ?es"
      allItems "mkFuzzy 1 ?es"]
  have a: "resultLimit (mkOptions 1) ?q = 2" using t1 by simp
  have b: "resultLimit (mkOptions 1) (mkQuery ''ab'' None (Some 0)) = 1" using t2 by simp
  have c: "resultLimit (mkOptions 1) (mkQuery ''ab'' None None) = 1" using t3 by simp
  have d: "length (fst (search (mkEngine 1 ?es) ?q)) = 2" by code_simp
  have e: "length (fst (projr (search_fuzzy allItems (mkFuzzy 1 ?es) ?q))) = 2 \<and>
           isl (search_fuzzy allItems (mkFuzzy 1 ?es) ?q) = False"
    by code_simp
  then have e': "\<exists>rs feng'. search_fuzzy allItems (mkFuzzy 1 ?es) ?q = Inr (rs, feng') \<and> length rs = 2"
    by (cases "search_fuzzy allItems (mkFuzzy 1 ?es) ?q") auto
  show ?thesis using a b c d e' by blast
qed

section \<open>Properties of the Fuzzy engine\<close>

lemma search_fuzzy_isl: "isl (search_fuzzy fs eng q) \<longleftrightarrow> fuse eng = None"
  by (simp add: search_fuzzy_def Let_def split: option.splits)

lemma callFuzzy_fuse:
  "fuse (callFuzzy fs eng c) = None \<longleftrightarrow> fuse eng = None \<and> \<not> isLoad c"
proof (cases c)
  case (Configure g) then show ?thesis by (simp add: configure_def)
next
  case (LoadEntities es) then show ?thesis by (simp add: loadEntities_def onEntitiesLoaded_def)
next
  case (Search q)
  then show ?thesis
    by (auto simp: search_fuzzy_def Let_def split: option.splits sum.splits)
qed

lemma foldl_callFuzzy_fuse:
  "fuse (foldl (callFuzzy fs) eng cs) = None \<longleftrightarrow> fuse eng = None \<and> (\<forall>c \<in> set cs. \<not> isLoad c)"
  by (induction cs arbitrary: eng) (auto simp: callFuzzy_fuse)

text \<open>
  C8. A search on a new Fuzzy engine throws the error "Entities not loaded"; a search on an
  engine on which \<open>loadEntities\<close> has just been called does not throw it (the result is a
  list of results); and after any history of calls on a new engine, a search throws it
  exactly when the history holds no \<open>loadEntities\<close> call.
\<close>

theorem fuzzy_search_requires_load:
  "search_fuzzy fs (new_FuzzySearchEngine userOptions) q =
     Inl (Error ''Entities not loaded. Call loadEntities() first.'') \<and>
   (\<exists>res. search_fuzzy fs (loadEntities onEntitiesLoaded eng es) q = Inr res) \<and>
   (isl (search_fuzzy fs (foldl (callFuzzy fs) (new_FuzzySearchEngine userOptions) calls) q)
      \<longleftrightarrow> \<not> list_ex isLoad calls)"
proof (intro conjI)
  show "search_fuzzy fs (new_FuzzySearchEngine userOptions) q =
     Inl (Error ''Entities not loaded. Call loadEntities() first.'')"
    by (simp add: search_fuzzy_def new_FuzzySearchEngine_def)
  have "\<not> isl (search_fuzzy fs (loadEntities onEntitiesLoaded eng es) q)"
    by (simp add: search_fuzzy_isl loadEntities_def onEntitiesLoaded_def)
  then show "\<exists>res. search_fuzzy fs (loadEntities onEntitiesLoaded eng es) q = Inr res"
    by (cases "search_fuzzy fs (loadEntities onEntitiesLoaded eng es) q") auto
  show "isl (search_fuzzy fs (foldl (callFuzzy fs) (new_FuzzySearchEngine userOptions) calls) q)
      \<longleftrightarrow> \<not> list_ex isLoad calls"
    by (simp add: search_fuzzy_isl foldl_callFuzzy_fuse new_FuzzySearchEngine_def list_ex_iff)
qed



section \<open>Properties of the entity builders\<close>

subsection \<open>Visibility\<close>







subsection \<open>Enum builder\<close>

lemma dropWhile_space_Nil: "dropWhile isSpace s = [] \<longleftrightarrow> (\<forall>c \<in> set s. isSpace c)"
  by simp

lemma trim_Nil_iff: "trim s = [] \<longleftrightarrow> (\<forall>c \<in> set s. isSpace c)"
proof
  assume "trim s = []"
  then have "dropWhile isSpace (rev (dropWhile isSpace s)) = []" by (simp add: trim_def)
  then have a: "\<forall>c \<in> set (dropWhile isSpace s). isSpace c"
    by (simp only: dropWhile_space_Nil set_rev)
  have "dropWhile isSpace s = []"
  proof (rule ccontr)
    assume ne: "dropWhile isSpace s \<noteq> []"
    then have "\<not> isSpace (hd (dropWhile isSpace s))" by (rule hd_dropWhile)
    moreover have "hd (dropWhile isSpace s) \<in> set (dropWhile isSpace s)"
      using ne by (rule hd_in_set)
    ultimately show False using a by blast
  qed
  then show "\<forall>c \<in> set s. isSpace c" by (simp only: dropWhile_space_Nil)
next
  assume "\<forall>c \<in> set s. isSpace c"
  then have e: "dropWhile isSpace s = []" by (simp only: dropWhile_space_Nil)
  show "trim s = []" by (simp only: trim_def e rev.simps dropWhile.simps)
qed

lemma trim_ends:
  assumes "trim s \<noteq> []"
  shows "\<not> isSpace (hd (trim s)) \<and> \<not> isSpace (last (trim s))"
proof -
  let ?d = "dropWhile isSpace s"
  let ?r = "dropWhile isSpace (rev ?d)"
  have r: "?r \<noteq> []" using assms by (simp add: trim_def)
  then have l: "\<not> isSpace (hd ?r)" by (rule hd_dropWhile)
  have last: "last (trim s) = hd ?r" using r by (simp only: trim_def last_rev)
  have d: "?d \<noteq> []" using r by (metis dropWhile.simps(1) rev.simps(1))
  then have hd: "\<not> isSpace (hd ?d)" by (rule hd_dropWhile)
  have "rev ?d = takeWhile isSpace (rev ?d) @ ?r" by simp
  then have "?d = rev ?r @ rev (takeWhile isSpace (rev ?d))"
    by (metis rev_append rev_rev_ident)
  then have "hd ?d = hd (rev ?r)" using r by (metis hd_append2 rev_is_Nil_conv)
  then have "\<not> isSpace (hd (trim s))" using hd by (simp add: trim_def)
  then show ?thesis using l last by simp
qed

lemma trim_dropWhile: "trim (dropWhile isSpace s) = trim s"
  by (simp add: trim_def)

lemma isSpace_equals: "\<not> isSpace (CHR ''='')"
  by (simp add: isSpace_def)

lemma stripLeadingEquals_match:
  assumes "\<forall>c \<in> set ws. isSpace c"
  shows "stripLeadingEquals (ws @ CHR ''='' # rest) = dropWhile isSpace rest"
proof -
  have "dropWhile isSpace (ws @ CHR ''='' # rest) = CHR ''='' # rest"
    using assms isSpace_equals by (simp add: dropWhile_append3)
  then show ?thesis by (simp add: stripLeadingEquals_def)
qed

lemma stripLeadingEquals_nomatch:
  assumes "\<not> (\<exists>ws rest. s = ws @ CHR ''='' # rest \<and> (\<forall>c \<in> set ws. isSpace c))"
  shows "stripLeadingEquals s = s"
proof (cases "dropWhile isSpace s")
  case Nil then show ?thesis by (simp only: stripLeadingEquals_def list.case)
next
  case (Cons c r)
  have s: "s = takeWhile isSpace s @ c # r" using Cons by (metis takeWhile_dropWhile_id)
  have "\<forall>x \<in> set (takeWhile isSpace s). isSpace x" by (auto dest: set_takeWhileD)
  with assms s have "c \<noteq> CHR ''=''" by blast
  then show ?thesis by (simp only: stripLeadingEquals_def Cons list.case if_False)
qed

lemma extractExplicitValue_eq:
  "truthy (getProp n ''initializer'') \<Longrightarrow>
   extractExplicitValue n =
     (let v = trim (stripLeadingEquals (extractText (the (getProp n ''initializer''))))
      in if v = [] then None else Some v)"
  by (simp add: extractExplicitValue_def Let_def)

text \<open>
  C9. The explicit value of an enumerator. With no initializer (or an empty one) there is no
  value. Otherwise, when the flattened text of the initializer is white space, an \<open>=\<close> and
  a rest, the value is the rest without the white space around it; when the text does not
  start that way, the value is the text without the white space around it; in both cases
  there is no value when nothing is left. The value is never the empty string and neither
  starts nor ends with white space; the text \<open>= 0xFF0000\<close> gives \<open>0xFF0000\<close>. Likewise the
  underlying type is absent when there is no type node or its flattened text is blank, and
  is the text without the white space around it otherwise, never the empty string. The enum
  builder stores these values in the entity.
\<close>

theorem enum_explicit_value:
  "extractExplicitValue (Obj [(''name'', Str ''RED''), (''initializer'', Str ''= 0xFF0000'')]) =
     Some ''0xFF0000'' \<and>
   (\<not> truthy (getProp n ''initializer'') \<longrightarrow> extractExplicitValue n = None) \<and>
   (\<forall>ws rest. truthy (getProp n ''initializer'') \<and>
      extractText (the (getProp n ''initializer'')) = ws @ CHR ''='' # rest \<and>
      (\<forall>c \<in> set ws. isSpace c) \<longrightarrow>
      extractExplicitValue n = (if trim rest = [] then None else Some (trim rest))) \<and>
   (truthy (getProp n ''initializer'') \<and>
      \<not> (\<exists>ws rest. extractText (the (getProp n ''initializer'')) = ws @ CHR ''='' # rest \<and>
                    (\<forall>c \<in> set ws. isSpace c)) \<longrightarrow>
      extractExplicitValue n =
        (if trim (extractText (the (getProp n ''initializer''))) = [] then None
         else Some (trim (extractText (the (getProp n ''initializer'')))))) \<and>
   extractExplicitValue n \<noteq> Some [] \<and>
   (\<forall>v. extractExplicitValue n = Some v \<longrightarrow> \<not> isSpace (hd v) \<and> \<not> isSpace (last v)) \<and>
   (\<not> truthy (getProp n ''type'') \<or>
      (\<forall>c \<in> set (extractText (the (getProp n ''type''))). isSpace c) \<longrightarrow>
      extractUnderlyingType n = None) \<and>
   (truthy (getProp n ''type'') \<and>
      \<not> (\<forall>c \<in> set (extractText (the (getProp n ''type''))). isSpace c) \<longrightarrow>
      extractUnderlyingType n = Some (trim (extractText (the (getProp n ''type''))))) \<and>
   extractUnderlyingType n \<noteq> Some [] \<and>
   ev_value (buildEnumValue n) = extractExplicitValue n \<and>
   details (buildEnum n) =
     EnumDetails (extractEnumValues n) (checkIsStrongEnum n) (extractUnderlyingType n)"
proof -
  have c1: "extractExplicitValue (Obj [(''name'', Str ''RED''), (''initializer'', Str ''= 0xFF0000'')]) =
     Some ''0xFF0000''"
    by code_simp
  have c2: "\<not> truthy (getProp n ''initializer'') \<longrightarrow> extractExplicitValue n = None"
    by (simp add: extractExplicitValue_def)
  have c3: "\<forall>ws rest. truthy (getProp n ''initializer'') \<and>
      extractText (the (getProp n ''initializer'')) = ws @ CHR ''='' # rest \<and>
      (\<forall>c \<in> set ws. isSpace c) \<longrightarrow>
      extractExplicitValue n = (if trim rest = [] then None else Some (trim rest))"
    by (simp add: extractExplicitValue_eq stripLeadingEquals_match trim_dropWhile Let_def)
  have c4: "truthy (getProp n ''initializer'') \<and>
      \<not> (\<exists>ws rest. extractText (the (getProp n ''initializer'')) = ws @ CHR ''='' # rest \<and>
                    (\<forall>c \<in> set ws. isSpace c)) \<longrightarrow>
      extractExplicitValue n =
        (if trim (extractText (the (getProp n ''initializer''))) = [] then None
         else Some (trim (extractText (the (getProp n ''initializer'')))))"
  proof
    assume h: "truthy (getProp n ''initializer'') \<and>
      \<not> (\<exists>ws rest. extractText (the (getProp n ''initializer'')) = ws @ CHR ''='' # rest \<and>
                    (\<forall>c \<in> set ws. isSpace c))"
    then have "stripLeadingEquals (extractText (the (getProp n ''initializer''))) =
                 extractText (the (getProp n ''initializer''))"
      by (intro stripLeadingEquals_nomatch) blast
    then show "extractExplicitValue n =
        (if trim (extractText (the (getProp n ''initializer''))) = [] then None
         else Some (trim (extractText (the (getProp n ''initializer'')))))"
      using h by (simp add: extractExplicitValue_eq Let_def)
  qed
  have c5: "extractExplicitValue n \<noteq> Some []"
    by (simp add: extractExplicitValue_def Let_def)
  have c6: "\<forall>v. extractExplicitValue n = Some v \<longrightarrow> \<not> isSpace (hd v) \<and> \<not> isSpace (last v)"
  proof (intro allI impI)
    fix v assume "extractExplicitValue n = Some v"
    then obtain t where "v = trim t" "trim t \<noteq> []"
      by (auto simp: extractExplicitValue_def Let_def split: if_splits)
    then show "\<not> isSpace (hd v) \<and> \<not> isSpace (last v)" using trim_ends by simp
  qed
  have c7: "\<not> truthy (getProp n ''type'') \<or>
      (\<forall>c \<in> set (extractText (the (getProp n ''type''))). isSpace c) \<longrightarrow>
      extractUnderlyingType n = None"
    by (auto simp: extractUnderlyingType_def Let_def trim_Nil_iff)
  have c8: "truthy (getProp n ''type'') \<and>
      \<not> (\<forall>c \<in> set (extractText (the (getProp n ''type''))). isSpace c) \<longrightarrow>
      extractUnderlyingType n = Some (trim (extractText (the (getProp n ''type''))))"
    by (auto simp: extractUnderlyingType_def Let_def trim_Nil_iff)
  have c9: "extractUnderlyingType n \<noteq> Some []"
    by (auto simp: extractUnderlyingType_def Let_def)
  have c10: "ev_value (buildEnumValue n) = extractExplicitValue n"
    by (simp add: buildEnumValue_def)
  have c11: "details (buildEnum n) =
     EnumDetails (extractEnumValues n) (checkIsStrongEnum n) (extractUnderlyingType n)"
    by (simp add: buildEnum_def buildBase_def)
  show ?thesis by (intro conjI) (rule c1 c2 c3 c4 c5 c6 c7 c8 c9 c10 c11)+
qed

text \<open>
  An enum with a blank type and four enumerators: an initializer, none, a blank one after
  the \<open>=\<close>, and one with nested text.
\<close>

theorem enum_explicit_value_witness:
  "map (\<lambda>v. (ev_name v, ev_value v)) (enumValues (details (buildEnum colorNode))) =
     [(''RED'', Some ''0xFF0000''), (''GREEN'', None), (''BLUE'', None), (''ALPHA'', Some ''RED |'')] \<and>
   underlyingType (details (buildEnum colorNode)) = None \<and>
   \<not> truthy (getProp (Obj [(''name'', Str ''GREEN'')]) ''initializer'') \<and>
   extractExplicitValue (Obj [(''name'', Str ''GREEN'')]) = None \<and>
   (truthy (getProp (Obj [(''name'', Str ''BLUE''), (''initializer'', Str ''=  '')]) ''initializer'') \<and>
    extractText (the (getProp (Obj [(''name'', Str ''BLUE''), (''initializer'', Str ''=  '')])
                        ''initializer'')) = [] @ CHR ''='' # ''  '') \<and>
   extractExplicitValue (Obj [(''name'', Str ''BLUE''), (''initializer'', Str ''=  '')]) = None \<and>
   (truthy (getProp colorNode ''type'') \<and>
    extractText (the (getProp colorNode ''type'')) = ''  '') \<and>
   extractUnderlyingType colorNode = None"
proof -
  let ?g = "Obj [(''name'', Str ''GREEN'')]"
  let ?b = "Obj [(''name'', Str ''BLUE''), (''initializer'', Str ''=  '')]"
  have a: "map (\<lambda>v. (ev_name v, ev_value v)) (enumValues (details (buildEnum colorNode))) =
     [(''RED'', Some ''0xFF0000''), (''GREEN'', None), (''BLUE'', None), (''ALPHA'', Some ''RED |'')]"
    by code_simp
  have hg: "\<not> truthy (getProp ?g ''initializer'')" by simp
  have hb: "truthy (getProp ?b ''initializer'') \<and>
    extractText (the (getProp ?b ''initializer'')) = [] @ CHR ''='' # ''  ''" by simp
  have tb: "trim ''  '' = []" by (simp add: trim_def isSpace_def)
  have ht': "truthy (getProp colorNode ''type'') \<and>
    extractText (the (getProp colorNode ''type'')) = ''  ''"
    by simp
  have ht: "truthy (getProp colorNode ''type'') \<and>
    (\<forall>c \<in> set (extractText (the (getProp colorNode ''type''))). isSpace c)"
    by (simp add: isSpace_def)
  have g: "extractExplicitValue ?g = None" using enum_explicit_value[of ?g] hg by blast
  have b: "extractExplicitValue ?b = None"
    using enum_explicit_value[of ?b] hb tb by (metis empty_iff list.set(1))
  have u: "extractUnderlyingType colorNode = None"
    using enum_explicit_value[of colorNode] ht by blast
  have d: "underlyingType (details (buildEnum colorNode)) = None"
    using enum_explicit_value[of colorNode] u by simp
  show ?thesis
    by (intro conjI)
      (rule a d hg g b u conjunct1[OF hb] conjunct2[OF hb] conjunct1[OF ht'] conjunct2[OF ht'])+
qed


section \<open>Properties of the parse orchestrator\<close>

lemma builtMembers_simps:
  "builtMembers parent [] = []"
  "builtMembers parent (md # mds) =
     (case buildMember md parent of Inr m \<Rightarrow> m # builtMembers parent mds
      | Inl e \<Rightarrow> builtMembers parent mds)"
  by (simp_all add: builtMembers_def List.map_filter_simps split: sum.splits)

lemma memberWarnings_simps:
  "memberWarnings parent [] = []"
  "memberWarnings parent (md # mds) =
     (case buildMember md parent of Inr m \<Rightarrow> memberWarnings parent mds
      | Inl e \<Rightarrow> memberWarning md parent e # memberWarnings parent mds)"
  by (simp_all add: memberWarnings_def List.map_filter_simps split: sum.splits)

lemma builtMembers_append:
  "builtMembers parent (xs @ ys) = builtMembers parent xs @ builtMembers parent ys"
  by (simp add: builtMembers_def List.map_filter_def)

lemma memberWarnings_append:
  "memberWarnings parent (xs @ ys) = memberWarnings parent xs @ memberWarnings parent ys"
  by (simp add: memberWarnings_def List.map_filter_def)

lemma memberWarnings_severity: "w \<in> set (memberWarnings parent mds) \<Longrightarrow> severity w = SevWarning"
  by (auto simp: memberWarnings_def List.map_filter_def memberWarning_def split: sum.splits)

lemma memberLoop_eq:
  "memberLoop parent mds (ms, errs) =
     (ms @ builtMembers parent mds, errs @ memberWarnings parent mds)"
proof (induction mds arbitrary: ms errs)
  case Nil then show ?case by (simp add: builtMembers_simps memberWarnings_simps)
next
  case (Cons md mds)
  show ?case
  proof (cases "buildMember md parent")
    case (Inl e)
    then show ?thesis
      by (simp add: Cons.IH builtMembers_simps memberWarnings_simps)
  next
    case (Inr m)
    then show ?thesis
      by (simp add: Cons.IH builtMembers_simps memberWarnings_simps)
  qed
qed

lemma sectionLoop_eq:
  "sectionLoop parent secs (ms, errs) =
     (ms @ builtMembers parent (concat (map (\<lambda>s. asList (getProp s ''memberdef'')) secs)),
      errs @ memberWarnings parent (concat (map (\<lambda>s. asList (getProp s ''memberdef'')) secs)))"
proof (induction secs arbitrary: ms errs)
  case Nil then show ?case by (simp add: builtMembers_simps memberWarnings_simps)
next
  case (Cons s secs)
  show ?case
    by (simp add: memberLoop_eq Cons.IH builtMembers_append memberWarnings_append)
qed

lemma extractMemberEntities_eq:
  "extractMemberEntities compoundDef parent errs =
     (builtMembers parent (memberDefs compoundDef),
      errs @ memberWarnings parent (memberDefs compoundDef))"
  by (simp add: extractMemberEntities_def sectionLoop_eq memberDefs_def)

lemma parseCompoundFile_errs:
  "\<exists>ws. snd (parseCompoundFile env opts xmlPath c errs) = errs @ ws \<and>
        (\<forall>w \<in> set ws. severity w = SevWarning) \<and>
        (isl (fst (parseCompoundFile env opts xmlPath c errs)) \<longrightarrow> ws = [])"
  unfolding parseCompoundFile_def Let_def
  by (auto simp: extractMemberEntities_eq memberWarnings_severity split: sum.splits prod.splits)

lemma parseCompoundFile_fst:
  "fst (parseCompoundFile env opts xmlPath c errs) = fst (parseCompoundFile env opts xmlPath c [])"
  unfolding parseCompoundFile_def Let_def
  by (auto simp: extractMemberEntities_eq split: sum.splits prod.splits)


lemma loadedEntities_simps:
  "loadedEntities env opts xmlPath [] = []"
  "loadedEntities env opts xmlPath (c # cs) =
     (case compoundResult env opts xmlPath c of Inr es \<Rightarrow> es | Inl e \<Rightarrow> []) @
     loadedEntities env opts xmlPath cs"
  by (simp_all add: loadedEntities_def)

lemma compoundErrors_simps:
  "compoundErrors env opts xmlPath [] = []"
  "compoundErrors env opts xmlPath (c # cs) =
     (case compoundResult env opts xmlPath c of
        Inl e \<Rightarrow> compoundError c e # compoundErrors env opts xmlPath cs
      | Inr es \<Rightarrow> compoundErrors env opts xmlPath cs)"
  by (simp_all add: compoundErrors_def List.map_filter_simps split: sum.splits)

lemma loadedEntities_append:
  "loadedEntities env opts xmlPath (xs @ ys) =
     loadedEntities env opts xmlPath xs @ loadedEntities env opts xmlPath ys"
  by (simp add: loadedEntities_def)

lemma compoundErrors_append:
  "compoundErrors env opts xmlPath (xs @ ys) =
     compoundErrors env opts xmlPath xs @ compoundErrors env opts xmlPath ys"
  by (simp add: compoundErrors_def List.map_filter_def)

lemma loadedEntities_good:
  "\<forall>c \<in> set cs. \<exists>es. compoundResult env opts xmlPath c = Inr es \<Longrightarrow>
   loadedEntities env opts xmlPath cs = concat (map (\<lambda>c. projr (compoundResult env opts xmlPath c)) cs)"
  by (induction cs) (auto simp: loadedEntities_simps)

lemma compoundErrors_good:
  "\<forall>c \<in> set cs. \<exists>es. compoundResult env opts xmlPath c = Inr es \<Longrightarrow>
   compoundErrors env opts xmlPath cs = []"
  by (induction cs) (auto simp: compoundErrors_simps)

lemma compoundLoop_eq:
  "fst (compoundLoop env opts xmlPath cs (es, errs)) = es @ loadedEntities env opts xmlPath cs \<and>
   filter (\<lambda>x. severity x = SevError) (snd (compoundLoop env opts xmlPath cs (es, errs))) =
     filter (\<lambda>x. severity x = SevError) errs @ compoundErrors env opts xmlPath cs"
proof (induction cs arbitrary: es errs)
  case Nil
  then show ?case by (simp add: loadedEntities_simps compoundErrors_simps)
next
  case (Cons c cs)
  obtain res errs' where p: "parseCompoundFile env opts xmlPath c errs = (res, errs')"
    by (cases "parseCompoundFile env opts xmlPath c errs")
  from parseCompoundFile_errs[of env opts xmlPath c errs] p obtain ws where
    ws: "errs' = errs @ ws" "\<forall>w \<in> set ws. severity w = SevWarning" by auto
  have f: "filter (\<lambda>x. severity x = SevError) errs' = filter (\<lambda>x. severity x = SevError) errs"
    using ws by (simp add: filter_empty_conv)
  have r: "compoundResult env opts xmlPath c = res"
    using parseCompoundFile_fst[of env opts xmlPath c errs] p by (simp add: compoundResult_def)
  show ?case
  proof (cases res)
    case (Inl e)
    then show ?thesis
      using p r f Cons.IH[of es "errs' @ [compoundError c e]"]
      by (simp add: loadedEntities_simps compoundErrors_simps compoundError_def)
  next
    case (Inr ces)
    then show ?thesis
      using p r f Cons.IH[of "es @ ces" errs']
      by (simp add: loadedEntities_simps compoundErrors_simps)
  qed
qed

lemma parseCompounds_eq:
  "fst (parseCompounds env opts xmlPath cs []) = loadedEntities env opts xmlPath cs \<and>
   filter (\<lambda>x. severity x = SevError) (snd (parseCompounds env opts xmlPath cs [])) =
     compoundErrors env opts xmlPath cs"
  using compoundLoop_eq[of env opts xmlPath cs "[]" "[]"] by (simp add: parseCompounds_def)

text \<open>
  C7. Let the directory, its index document and the index's compounds be read without
  failure, and let exactly one of the compounds to load, \<open>c\<close>, fail in \<open>parseCompoundFile\<close>
  with the error \<open>e\<close>, all others succeeding. Then \<open>parse\<close> returns a result; its error list
  holds exactly one entry of severity \<open>error\<close>, the one recorded for \<open>c\<close> (file
  \<open>refid.xml\<close>); and its entities are the entities of all the other compounds, in order.
  Within a compound, a member definition that fails to build adds one entry of severity
  \<open>warning\<close>, and the member definitions before and after it are processed as they would be
  without it.
\<close>

theorem parse_isolates_failures:
  assumes files: "findDoxygenFiles env xmlPath = Inr files"
    and idx: "find (\<lambda>f. endsWith f ''index.xml'') files = Some indexFile"
    and index: "parseIndexFile env indexFile = Inr index"
    and cs: "filterCompounds opts (compounds index) = cs1 @ c # cs2"
    and bad: "fst (parseCompoundFile env opts xmlPath c []) = Inl e"
    and good: "\<forall>c' \<in> set (cs1 @ cs2). \<exists>es. fst (parseCompoundFile env opts xmlPath c' []) = Inr es"
  shows
    "(\<exists>r. parse env opts xmlPath = Inr r \<and>
          filter (\<lambda>x. severity x = SevError) (errors r) = [compoundError c e] \<and>
          pr_entities r =
            concat (map (\<lambda>c'. projr (fst (parseCompoundFile env opts xmlPath c' []))) (cs1 @ cs2))) \<and>
     severity (compoundError c e) = SevError \<and>
     pe_file (compoundError c e) = tmpl (refid c) @ ''.xml'' \<and>
     (\<forall>compoundDef parent errs ms1 md ms2 e'.
        memberDefs compoundDef = ms1 @ md # ms2 \<and> buildMember md parent = Inl e' \<longrightarrow>
        extractMemberEntities compoundDef parent errs =
          (builtMembers parent ms1 @ builtMembers parent ms2,
           errs @ memberWarnings parent ms1 @ memberWarning md parent e' #
             memberWarnings parent ms2) \<and>
        severity (memberWarning md parent e') = SevWarning)"
proof (intro conjI allI impI)
  let ?cs = "cs1 @ c # cs2"
  obtain es errs where pc: "parseCompounds env opts xmlPath ?cs [] = (es, errs)"
    by (cases "parseCompounds env opts xmlPath ?cs []")
  have bad': "compoundResult env opts xmlPath c = Inl e" using bad by (simp add: compoundResult_def)
  have g1: "\<forall>c' \<in> set cs1. \<exists>es. compoundResult env opts xmlPath c' = Inr es"
    and g2: "\<forall>c' \<in> set cs2. \<exists>es. compoundResult env opts xmlPath c' = Inr es"
    using good by (auto simp: compoundResult_def)
  have g: "\<forall>c' \<in> set (cs1 @ cs2). \<exists>es. compoundResult env opts xmlPath c' = Inr es"
    using g1 g2 by auto
  have ents: "es = concat (map (\<lambda>c'. projr (fst (parseCompoundFile env opts xmlPath c' []))) (cs1 @ cs2))"
  proof -
    have "es = loadedEntities env opts xmlPath ?cs" using parseCompounds_eq[of env opts xmlPath ?cs] pc by simp
    also have "\<dots> = loadedEntities env opts xmlPath cs1 @ loadedEntities env opts xmlPath cs2"
      using bad' by (simp add: loadedEntities_append loadedEntities_simps)
    also have "\<dots> = loadedEntities env opts xmlPath (cs1 @ cs2)"
      by (simp add: loadedEntities_append)
    also have "\<dots> = concat (map (\<lambda>c'. projr (compoundResult env opts xmlPath c')) (cs1 @ cs2))"
      by (rule loadedEntities_good[OF g])
    finally show ?thesis by (simp add: compoundResult_def)
  qed
  have errs: "filter (\<lambda>x. severity x = SevError) errs = [compoundError c e]"
  proof -
    have "filter (\<lambda>x. severity x = SevError) errs = compoundErrors env opts xmlPath ?cs"
      using parseCompounds_eq[of env opts xmlPath ?cs] pc by simp
    also have "\<dots> = compoundErrors env opts xmlPath cs1 @ compoundError c e #
                      compoundErrors env opts xmlPath cs2"
      using bad' by (simp add: compoundErrors_append compoundErrors_simps)
    also have "\<dots> = [compoundError c e]"
      by (simp add: compoundErrors_good[OF g1] compoundErrors_good[OF g2])
    finally show ?thesis .
  qed
  have "parse env opts xmlPath =
          Inr \<lparr>pr_entities = es,
               metadata = \<lparr>doxygenVersion = version index, totalFiles = length files,
                            totalEntitiesParsed = length es, fromCache = False\<rparr>,
               errors = errs\<rparr>"
    by (simp add: parse_def parseSteps_def files idx index cs pc)
  then show "\<exists>r. parse env opts xmlPath = Inr r \<and>
          filter (\<lambda>x. severity x = SevError) (errors r) = [compoundError c e] \<and>
          pr_entities r =
            concat (map (\<lambda>c'. projr (fst (parseCompoundFile env opts xmlPath c' []))) (cs1 @ cs2))"
    using ents errs by simp
next
  show "severity (compoundError c e) = SevError" by (simp add: compoundError_def)
  show "pe_file (compoundError c e) = tmpl (refid c) @ ''.xml''" by (simp add: compoundError_def)
next
  fix compoundDef parent errs ms1 md ms2 e'
  assume a: "memberDefs compoundDef = ms1 @ md # ms2 \<and> buildMember md parent = Inl e'"
  then show "extractMemberEntities compoundDef parent errs =
          (builtMembers parent ms1 @ builtMembers parent ms2,
           errs @ memberWarnings parent ms1 @ memberWarning md parent e' #
             memberWarnings parent ms2)"
    by (simp add: extractMemberEntities_eq builtMembers_append memberWarnings_append
        builtMembers_simps memberWarnings_simps)
  show "severity (memberWarning md parent e') = SevWarning" by (simp add: memberWarning_def)
qed



text \<open>
  A directory of three compounds: a class with a method and a member of an unsupported
  kind, a document without a \<open>compounddef\<close>, and a namespace.
\<close>

lemma ex_files: "findDoxygenFiles exampleEnv ''xml'' = Inr [''xml/index.xml'', ''xml/classA.xml'', ''xml/broken.xml'', ''xml/namespaceB.xml'']" by code_simp

lemma ex_idx: "find (\<lambda>f. endsWith f ''index.xml'') [''xml/index.xml'', ''xml/classA.xml'', ''xml/broken.xml'', ''xml/namespaceB.xml''] = Some ''xml/index.xml''" by code_simp

lemma ex_index: "parseIndexFile exampleEnv ''xml/index.xml'' = Inr \<lparr>version = ''1.9.1'', compounds = [mkCompound ''classA'' ''class'' ''A''] @ mkCompound ''broken'' ''class'' ''Broken'' # [mkCompound ''namespaceB'' ''namespace'' ''B'']\<rparr>" by code_simp

lemma ex_bad: "fst (parseCompoundFile exampleEnv exampleOptions ''xml'' (mkCompound ''broken'' ''class'' ''Broken'') []) =
               Inl (Error ''Invalid compound XML structure'')"
    by code_simp

lemma ex_g1: "isl (fst (parseCompoundFile exampleEnv exampleOptions ''xml''
                   (mkCompound ''classA'' ''class'' ''A'') [])) = False"
    by code_simp

lemma ex_g2: "isl (fst (parseCompoundFile exampleEnv exampleOptions ''xml''
                   (mkCompound ''namespaceB'' ''namespace'' ''B'') [])) = False"
    by code_simp

lemma ex_v1: "map (\<lambda>x. (pe_file x, pe_entityId x, severity x))
              (errors (projr (parse exampleEnv exampleOptions ''xml''))) =
          [(''classA.xml'', Some ''m2'', SevWarning), (''broken.xml'', None, SevError)]"
    by code_simp

lemma ex_v2: "map (\<lambda>x. (name x, kind x)) (pr_entities (projr (parse exampleEnv exampleOptions ''xml''))) =
          [(''A'', KClass), (''draw'', KMethod), (''B'', KNamespace)]"
    by code_simp

lemma not_isl_Inr: "isl x = False \<Longrightarrow> \<exists>y. x = Inr y"
  by (cases x) simp_all

theorem parse_isolates_failures_witness:
  "fst (parseCompoundFile exampleEnv exampleOptions ''xml'' (mkCompound ''broken'' ''class'' ''Broken'') []) =
     Inl (Error ''Invalid compound XML structure'') \<and>
   (\<exists>r. parse exampleEnv exampleOptions ''xml'' = Inr r \<and>
        filter (\<lambda>x. severity x = SevError) (errors r) =
          [compoundError (mkCompound ''broken'' ''class'' ''Broken'')
             (Error ''Invalid compound XML structure'')] \<and>
        map (\<lambda>x. (pe_file x, pe_entityId x, severity x)) (errors r) =
          [(''classA.xml'', Some ''m2'', SevWarning), (''broken.xml'', None, SevError)] \<and>
        map (\<lambda>x. (name x, kind x)) (pr_entities r) =
          [(''A'', KClass), (''draw'', KMethod), (''B'', KNamespace)])"
proof -
  let ?c = "mkCompound ''broken'' ''class'' ''Broken''"
  let ?cA = "mkCompound ''classA'' ''class'' ''A''"
  let ?cB = "mkCompound ''namespaceB'' ''namespace'' ''B''"
  let ?files = "[''xml/index.xml'', ''xml/classA.xml'', ''xml/broken.xml'', ''xml/namespaceB.xml'']"
  let ?index = "\<lparr>version = ''1.9.1'', compounds = [?cA] @ ?c # [?cB]\<rparr>"
  have cs: "filterCompounds exampleOptions (compounds ?index) = [?cA] @ ?c # [?cB]"
    by code_simp
  have good: "\<forall>c' \<in> set ([?cA] @ [?cB]).
                \<exists>es. fst (parseCompoundFile exampleEnv exampleOptions ''xml'' c' []) = Inr es"
  proof
    fix c' assume "c' \<in> set ([?cA] @ [?cB])"
    then have "c' = ?cA \<or> c' = ?cB" by simp
    then show "\<exists>es. fst (parseCompoundFile exampleEnv exampleOptions ''xml'' c' []) = Inr es"
      using not_isl_Inr[OF ex_g1] not_isl_Inr[OF ex_g2] by blast
  qed
  from parse_isolates_failures[OF ex_files ex_idx ex_index cs ex_bad good]
  obtain r where r: "parse exampleEnv exampleOptions ''xml'' = Inr r"
    and e: "filter (\<lambda>x. severity x = SevError) (errors r) =
              [compoundError ?c (Error ''Invalid compound XML structure'')]"
    by blast
  have v1: "map (\<lambda>x. (pe_file x, pe_entityId x, severity x)) (errors r) =
          [(''classA.xml'', Some ''m2'', SevWarning), (''broken.xml'', None, SevError)]"
    using ex_v1 by (simp only: r sum.sel)
  have v2: "map (\<lambda>x. (name x, kind x)) (pr_entities r) =
          [(''A'', KClass), (''draw'', KMethod), (''B'', KNamespace)]"
    using ex_v2 by (simp only: r sum.sel)
  show ?thesis
    by (intro conjI exI[of _ r]) (rule ex_bad r e v1 v2)+
qed


end
